theory Spec2Isabelle
  imports Complex_Main
begin

section \<open>Errors and the error middleware\<close>

text \<open>
  The values that reach the error middleware (\<open>middleware/errorHandler.ts\<close>):
  the application's own \<open>AppError\<close> (message, statusCode), the ORM's
  \<open>PrismaClientKnownRequestError\<close> (code, message), and any other JavaScript
  \<open>Error\<close> (name, message). The constructors are told apart by \<open>instanceof\<close>,
  so the \<open>name\<close> field of a plain \<open>Error\<close> plays no part.
\<close>

datatype error =
    AppError string int
  | PrismaClientKnownRequestError string string
  | Error string string

text \<open>What \<open>res.status(c).json({status, message})\<close> sends.\<close>

record response =
  res_status :: int
  json_status :: string
  json_message :: string

definition errorHandler :: "error \<Rightarrow> response" where
  "errorHandler err =
     (case err of
        AppError message statusCode \<Rightarrow>
          \<lparr>res_status = statusCode, json_status = ''error'', json_message = message\<rparr>
      | PrismaClientKnownRequestError code message \<Rightarrow>
          if code = ''P2002''
          then \<lparr>res_status = 400, json_status = ''error'',
                json_message = ''A unique constraint violation occurred''\<rparr>
          else \<lparr>res_status = 400, json_status = ''error'',
                json_message = ''Database operation failed''\<rparr>
      | Error name message \<Rightarrow>
          \<lparr>res_status = 500, json_status = ''error'',
           json_message = ''Internal server error''\<rparr>)"

section \<open>Authorization middleware\<close>

text \<open>
  \<open>req.user\<close> is optional (set by \<open>authenticate\<close>); the rest of the request is
  carried along untouched. A middleware either calls \<open>next()\<close> (\<open>Inr\<close>, the request
  going on) or \<open>next(err)\<close> (\<open>Inl\<close>).
\<close>

record auth_user =
  userId :: int
  role :: string

record request =
  req_authorization :: "string option"
  req_user :: "auth_user option"
  req_body :: string

definition authorize :: "string list \<Rightarrow> request \<Rightarrow> error + request" where
  "authorize allowedRoles req =
     (case req_user req of
        None \<Rightarrow> Inl (AppError ''Not authorized to access this resource'' 403)
      | Some u \<Rightarrow>
          if role u \<notin> set allowedRoles
          then Inl (AppError ''Not authorized to access this resource'' 403)
          else Inr req)"

section \<open>The relational store\<close>

text \<open>
  The tables of \<open>prisma/migrations/20250802180117_init/migration.sql\<close> that the
  services below read or write. A table is the list of its rows in insertion order.
  The \<open>createdAt\<close> columns are left out (they are filled by the database clock and
  read by no operation here). The item rows of an order are kept with their order:
  they are only ever created by the nested \<open>items: {create: items}\<close> and read back
  through \<open>include: {items: ...}\<close>.
\<close>

record category =
  cat_id :: int
  cat_name :: string

record supplier =
  sup_id :: int
  sup_name :: string
  sup_email :: string

record warehouse =
  wh_id :: int
  wh_name :: string
  wh_capacity :: int
  wh_address :: string

record location =
  loc_id :: int
  loc_name :: string
  loc_warehouseId :: int

record product =
  prod_id :: int
  prod_name :: string
  prod_sku :: string
  prod_barcode :: string
  prod_categoryId :: int
  prod_supplierId :: int
  prod_warehouseId :: int
  prod_unitPrice :: real
  prod_price :: real

record stock =
  stock_id :: int
  stock_productId :: int
  stock_warehouseId :: int
  stock_locationId :: int
  stock_quantity :: int

record order_item =
  item_productId :: int
  item_quantity :: int
  item_unitPrice :: real

record purchase_order =
  po_id :: int
  po_supplierId :: int
  po_status :: string
  po_items :: "order_item list"

record sales_order =
  so_id :: int
  so_customerId :: int
  so_status :: string
  so_items :: "order_item list"

datatype movement_type = IN | OUT

datatype adjustment_type = ADD | REMOVE

record stock_movement =
  mv_id :: int
  mv_stockId :: int
  mv_movementType :: movement_type
  mv_quantity :: int
  mv_reason :: string

record stock_adjustment =
  adj_id :: int
  adj_stockId :: int
  adj_adjustmentType :: adjustment_type
  adj_quantity :: int
  adj_reason :: string
  adj_approvedById :: int

record db =
  categories :: "category list"
  suppliers :: "supplier list"
  warehouses :: "warehouse list"
  locations :: "location list"
  products :: "product list"
  stocks :: "stock list"
  purchaseOrders :: "purchase_order list"
  salesOrders :: "sales_order list"
  stockMovements :: "stock_movement list"
  stockAdjustments :: "stock_adjustment list"

text \<open>
  The unique indexes the migration declares (lines 141--154), as (table, columns).
  There is none on \<open>Stock\<close>.
\<close>

definition unique_indexes :: "(string \<times> string list) list" where
  "unique_indexes =
     [(''User'', [''username'']),
      (''Category'', [''name'']),
      (''Supplier'', [''email'']),
      (''Product'', [''sku'']),
      (''Product'', [''barcode''])]"

subsection \<open>What the ORM does\<close>

text \<open>
  \<open>INTEGER PRIMARY KEY AUTOINCREMENT\<close>: a new id is larger than every id in the
  table. (SQLite also skips the ids of deleted rows; only \<open>Product\<close> rows are ever
  deleted here, and nothing below depends on which new id a product gets.)
\<close>

definition next_id :: "int list \<Rightarrow> int" where
  "next_id ids = fold max ids 0 + 1"

text \<open>
  \<open>prisma.$transaction\<close>: when the callback throws, the writes it made are rolled
  back and the error is passed on.
\<close>

definition transaction :: "(db \<Rightarrow> (error + 'a) \<times> db) \<Rightarrow> db \<Rightarrow> (error + 'a) \<times> db" where
  "transaction body s =
     (case body s of
        (Inl e, tx) \<Rightarrow> (Inl e, s)
      | (Inr r, tx) \<Rightarrow> (Inr r, tx))"

text \<open>
  \<open>stock.update({where: {id}, data: {quantity}})\<close>. Every call below follows a
  successful read of the row with that id.
\<close>

definition stock_update :: "int \<Rightarrow> int \<Rightarrow> db \<Rightarrow> db" where
  "stock_update sid quantity s =
     s\<lparr>stocks := map (\<lambda>r. if stock_id r = sid then r\<lparr>stock_quantity := quantity\<rparr> else r)
                    (stocks s)\<rparr>"

text \<open>
  \<open>stock.create\<close>: the table has three foreign keys and no unique index, so the
  insert fails (Prisma code P2003) only when a referenced row is missing.
\<close>

definition stock_create :: "int \<Rightarrow> int \<Rightarrow> int \<Rightarrow> int \<Rightarrow> db \<Rightarrow> (error + stock) \<times> db" where
  "stock_create productId warehouseId locationId quantity s =
     (if productId \<notin> set (map prod_id (products s))
         \<or> warehouseId \<notin> set (map wh_id (warehouses s))
         \<or> locationId \<notin> set (map loc_id (locations s))
      then (Inl (PrismaClientKnownRequestError ''P2003'' ''Foreign key constraint failed''), s)
      else
        let row = \<lparr>stock_id = next_id (map stock_id (stocks s)),
                   stock_productId = productId, stock_warehouseId = warehouseId,
                   stock_locationId = locationId, stock_quantity = quantity\<rparr>
        in (Inr row, s\<lparr>stocks := stocks s @ [row]\<rparr>))"

text \<open>
  \<open>stockMovement.create\<close> and \<open>stockAdjustment.create\<close>. The only foreign key is
  \<open>stockId\<close>, which every caller has just read from the \<open>Stock\<close> table.
\<close>

definition stockMovement_create ::
    "int \<Rightarrow> movement_type \<Rightarrow> int \<Rightarrow> string \<Rightarrow> db \<Rightarrow> stock_movement \<times> db" where
  "stockMovement_create stockId movementType quantity reason s =
     (let row = \<lparr>mv_id = next_id (map mv_id (stockMovements s)), mv_stockId = stockId,
                 mv_movementType = movementType, mv_quantity = quantity,
                 mv_reason = reason\<rparr>
      in (row, s\<lparr>stockMovements := stockMovements s @ [row]\<rparr>))"

definition stockAdjustment_create ::
    "int \<Rightarrow> adjustment_type \<Rightarrow> int \<Rightarrow> string \<Rightarrow> int \<Rightarrow> db \<Rightarrow> stock_adjustment \<times> db" where
  "stockAdjustment_create stockId adjustmentType quantity reason approvedById s =
     (let row = \<lparr>adj_id = next_id (map adj_id (stockAdjustments s)), adj_stockId = stockId,
                 adj_adjustmentType = adjustmentType, adj_quantity = quantity,
                 adj_reason = reason, adj_approvedById = approvedById\<rparr>
      in (row, s\<lparr>stockAdjustments := stockAdjustments s @ [row]\<rparr>))"

text \<open>
  \<open>product.create\<close>: unique indexes on \<open>sku\<close> and on \<open>barcode\<close> (code P2002) and
  three foreign keys (code P2003).
\<close>

definition product_create ::
    "string \<Rightarrow> string \<Rightarrow> string \<Rightarrow> int \<Rightarrow> int \<Rightarrow> int \<Rightarrow> real \<Rightarrow> real \<Rightarrow> db
      \<Rightarrow> (error + product) \<times> db" where
  "product_create name sku barcode categoryId supplierId warehouseId unitPrice price s =
     (if sku \<in> set (map prod_sku (products s)) \<or> barcode \<in> set (map prod_barcode (products s))
      then (Inl (PrismaClientKnownRequestError ''P2002'' ''Unique constraint failed''), s)
      else if categoryId \<notin> set (map cat_id (categories s))
         \<or> supplierId \<notin> set (map sup_id (suppliers s))
         \<or> warehouseId \<notin> set (map wh_id (warehouses s))
      then (Inl (PrismaClientKnownRequestError ''P2003'' ''Foreign key constraint failed''), s)
      else
        let row = \<lparr>prod_id = next_id (map prod_id (products s)), prod_name = name,
                   prod_sku = sku, prod_barcode = barcode, prod_categoryId = categoryId,
                   prod_supplierId = supplierId, prod_warehouseId = warehouseId,
                   prod_unitPrice = unitPrice, prod_price = price\<rparr>
        in (Inr row, s\<lparr>products := products s @ [row]\<rparr>))"

text \<open>
  \<open>salesOrder.create\<close> with nested items: each item row has a foreign key to
  \<open>Product\<close>; \<open>customerId\<close> has none.
\<close>

definition salesOrder_create ::
    "int \<Rightarrow> string \<Rightarrow> order_item list \<Rightarrow> db \<Rightarrow> (error + sales_order) \<times> db" where
  "salesOrder_create customerId status items s =
     (if \<exists>item \<in> set items. item_productId item \<notin> set (map prod_id (products s))
      then (Inl (PrismaClientKnownRequestError ''P2003'' ''Foreign key constraint failed''), s)
      else
        let row = \<lparr>so_id = next_id (map so_id (salesOrders s)), so_customerId = customerId,
                   so_status = status, so_items = items\<rparr>
        in (Inr row, s\<lparr>salesOrders := salesOrders s @ [row]\<rparr>))"

definition salesOrder_update_status :: "int \<Rightarrow> string \<Rightarrow> db \<Rightarrow> db" where
  "salesOrder_update_status oid status s =
     s\<lparr>salesOrders := map (\<lambda>ord. if so_id ord = oid then ord\<lparr>so_status := status\<rparr> else ord)
                         (salesOrders s)\<rparr>"

definition purchaseOrder_update_status :: "int \<Rightarrow> string \<Rightarrow> db \<Rightarrow> db" where
  "purchaseOrder_update_status oid status s =
     s\<lparr>purchaseOrders := map (\<lambda>ord. if po_id ord = oid then ord\<lparr>po_status := status\<rparr> else ord)
                            (purchaseOrders s)\<rparr>"

subsection \<open>Numbers and lists in message strings\<close>

text \<open>A template literal \<open>${n}\<close> of an integer, and \<open>Array.prototype.join\<close>.\<close>

fun show_nat :: "nat \<Rightarrow> string" where
  "show_nat n =
     (if n < 10 then [''0123456789'' ! n]
      else show_nat (n div 10) @ [''0123456789'' ! (n mod 10)])"

definition show_int :: "int \<Rightarrow> string" where
  "show_int i = (if i < 0 then CHR ''-'' # show_nat (nat (- i)) else show_nat (nat i))"

fun join :: "string \<Rightarrow> string list \<Rightarrow> string" where
  "join sep [] = []"
| "join sep [x] = x"
| "join sep (x # y # ys) = x @ sep @ join sep (y # ys)"

section \<open>StockService\<close>

definition createStock :: "int \<Rightarrow> int \<Rightarrow> int \<Rightarrow> int \<Rightarrow> db \<Rightarrow> (error + stock) \<times> db" where
  "createStock productId warehouseId locationId quantity s =
     (case find (\<lambda>l. loc_id l = locationId) (locations s) of
        None \<Rightarrow> (Inl (AppError ''Invalid location for warehouse'' 400), s)
      | Some location \<Rightarrow>
          if loc_warehouseId location \<noteq> warehouseId
          then (Inl (AppError ''Invalid location for warehouse'' 400), s)
          else
            (case find (\<lambda>r. stock_productId r = productId \<and> stock_locationId r = locationId)
                    (stocks s) of
               Some existingStock \<Rightarrow>
                 (Inl (AppError ''Stock already exists for this product in this location'' 400), s)
             | None \<Rightarrow> stock_create productId warehouseId locationId quantity s))"

definition recordMovement ::
    "int \<Rightarrow> movement_type \<Rightarrow> int \<Rightarrow> string \<Rightarrow> db \<Rightarrow> (error + stock_movement) \<times> db" where
  "recordMovement stockId movementType quantity reason =
     transaction (\<lambda>tx.
       case find (\<lambda>r. stock_id r = stockId) (stocks tx) of
         None \<Rightarrow> (Inl (AppError ''Stock not found'' 404), tx)
       | Some stock \<Rightarrow>
           if movementType = OUT \<and> stock_quantity stock < quantity
           then (Inl (AppError ''Insufficient stock quantity'' 400), tx)
           else
             let newQuantity =
                   (if movementType = IN then stock_quantity stock + quantity
                    else stock_quantity stock - quantity);
                 tx1 = stock_update stockId newQuantity tx;
                 (movement, tx2) = stockMovement_create stockId movementType quantity reason tx1
             in (Inr movement, tx2))"

definition adjustStock ::
    "int \<Rightarrow> adjustment_type \<Rightarrow> int \<Rightarrow> string \<Rightarrow> int \<Rightarrow> db
      \<Rightarrow> (error + stock_adjustment) \<times> db" where
  "adjustStock stockId adjustmentType quantity reason approvedById =
     transaction (\<lambda>tx.
       case find (\<lambda>r. stock_id r = stockId) (stocks tx) of
         None \<Rightarrow> (Inl (AppError ''Stock not found'' 404), tx)
       | Some stock \<Rightarrow>
           if adjustmentType = REMOVE \<and> stock_quantity stock < quantity
           then (Inl (AppError ''Insufficient stock quantity'' 400), tx)
           else
             let newQuantity =
                   (if adjustmentType = ADD then stock_quantity stock + quantity
                    else stock_quantity stock - quantity);
                 tx1 = stock_update stockId newQuantity tx;
                 (adjustment, tx2) =
                   stockAdjustment_create stockId adjustmentType quantity reason approvedById tx1
             in (Inr adjustment, tx2))"

text \<open>
  \<open>transferStock\<close> returns the two rows as they are read back at the end. The
  quantities written are computed from the rows read before the two updates.
\<close>

definition transferStock ::
    "int \<Rightarrow> int \<Rightarrow> int \<Rightarrow> string \<Rightarrow> db \<Rightarrow> (error + stock option \<times> stock option) \<times> db" where
  "transferStock sourceStockId targetLocationId quantity reason =
     transaction (\<lambda>tx.
       case find (\<lambda>r. stock_id r = sourceStockId) (stocks tx) of
         None \<Rightarrow> (Inl (AppError ''Source stock not found'' 404), tx)
       | Some sourceStock \<Rightarrow>
           if stock_quantity sourceStock < quantity
           then (Inl (AppError ''Insufficient stock quantity'' 400), tx)
           else
             (case find (\<lambda>l. loc_id l = targetLocationId) (locations tx) of
                None \<Rightarrow> (Inl (AppError ''Target location not found'' 404), tx)
              | Some targetLocation \<Rightarrow>
                  (case
                     (case find (\<lambda>r. stock_productId r = stock_productId sourceStock
                                     \<and> stock_locationId r = targetLocationId) (stocks tx) of
                        Some found \<Rightarrow> (Inr found, tx)
                      | None \<Rightarrow>
                          stock_create (stock_productId sourceStock)
                            (loc_warehouseId targetLocation) targetLocationId 0 tx)
                   of
                     (Inl e, tx1) \<Rightarrow> (Inl e, tx1)
                   | (Inr targetStock, tx1) \<Rightarrow>
                       let tx2 = stock_update sourceStockId
                                   (stock_quantity sourceStock - quantity) tx1;
                           tx3 = stock_update (stock_id targetStock)
                                   (stock_quantity targetStock + quantity) tx2;
                           tx4 = snd (stockMovement_create sourceStockId OUT quantity
                                        (''Transfer out: '' @ reason) tx3);
                           tx5 = snd (stockMovement_create (stock_id targetStock) IN quantity
                                        (''Transfer in: '' @ reason) tx4)
                       in (Inr (find (\<lambda>r. stock_id r = sourceStockId) (stocks tx5),
                                find (\<lambda>r. stock_id r = stock_id targetStock) (stocks tx5)),
                           tx5))))"

section \<open>SalesOrderService\<close>

text \<open>
  One entry of \<open>stockChecks\<close>: either \<open>{isAvailable: true}\<close> or the product name,
  the available and the requested quantity with \<open>isAvailable: false\<close>.
\<close>

datatype stock_check = Available | Unavailable string int int

definition productName :: "db \<Rightarrow> stock \<Rightarrow> string" where
  "productName s stock =
     (case find (\<lambda>p. prod_id p = stock_productId stock) (products s) of
        Some p \<Rightarrow> if prod_name p = [] then ''Unknown product'' else prod_name p
      | None \<Rightarrow> ''Unknown product'')"

definition stockCheck :: "db \<Rightarrow> order_item \<Rightarrow> stock_check" where
  "stockCheck s item =
     (case find (\<lambda>r. stock_productId r = item_productId item) (stocks s) of
        None \<Rightarrow> Unavailable ''Unknown product'' 0 (item_quantity item)
      | Some stock \<Rightarrow>
          if stock_quantity stock < item_quantity item
          then Unavailable (productName s stock) (stock_quantity stock) (item_quantity item)
          else Available)"

fun describeUnavailable :: "stock_check \<Rightarrow> string" where
  "describeUnavailable (Unavailable name available requested) =
     name @ '' (requested: '' @ show_int requested @ '', available: ''
       @ show_int available @ '')''"
| "describeUnavailable Available = []"

text \<open>The loop `Reduce stock quantities' of \<open>createSalesOrder\<close>.\<close>

fun reduceStock :: "int \<Rightarrow> order_item list \<Rightarrow> db \<Rightarrow> db" where
  "reduceStock orderId [] tx = tx"
| "reduceStock orderId (item # items) tx =
     (case find (\<lambda>r. stock_productId r = item_productId item) (stocks tx) of
        None \<Rightarrow> reduceStock orderId items tx
      | Some stock \<Rightarrow>
          reduceStock orderId items
            (snd (stockMovement_create (stock_id stock) OUT (item_quantity item)
                    (''Sales Order #'' @ show_int orderId)
                    (stock_update (stock_id stock)
                       (stock_quantity stock - item_quantity item) tx))))"

definition createSalesOrder ::
    "int \<Rightarrow> order_item list \<Rightarrow> db \<Rightarrow> (error + sales_order) \<times> db" where
  "createSalesOrder customerId items s =
     (if items = []
      then (Inl (AppError ''Sales order must have at least one item'' 400), s)
      else
        let stockChecks = map (stockCheck s) items;
            unavailableItems = filter (\<lambda>check. check \<noteq> Available) stockChecks
        in
          if length unavailableItems > 0
          then (Inl (AppError (''Insufficient stock for items: ''
                                @ join '', '' (map describeUnavailable unavailableItems)) 400), s)
          else
            transaction (\<lambda>tx.
              case salesOrder_create customerId ''open'' items tx of
                (Inl e, tx1) \<Rightarrow> (Inl e, tx1)
              | (Inr order, tx1) \<Rightarrow> (Inr order, reduceStock (so_id order) items tx1)) s)"

text \<open>The loop `Restore stock quantities' of \<open>cancelSalesOrder\<close>.\<close>

fun restoreStock :: "int \<Rightarrow> order_item list \<Rightarrow> db \<Rightarrow> db" where
  "restoreStock orderId [] tx = tx"
| "restoreStock orderId (item # items) tx =
     (case find (\<lambda>r. stock_productId r = item_productId item) (stocks tx) of
        None \<Rightarrow> restoreStock orderId items tx
      | Some stock \<Rightarrow>
          restoreStock orderId items
            (snd (stockMovement_create (stock_id stock) IN (item_quantity item)
                    (''Sales Order #'' @ show_int orderId @ '' cancelled'')
                    (stock_update (stock_id stock)
                       (stock_quantity stock + item_quantity item) tx))))"

definition cancelSalesOrder :: "int \<Rightarrow> db \<Rightarrow> (error + sales_order option) \<times> db" where
  "cancelSalesOrder oid =
     transaction (\<lambda>tx.
       case find (\<lambda>ord. so_id ord = oid) (salesOrders tx) of
         None \<Rightarrow> (Inl (AppError ''Sales order not found'' 404), tx)
       | Some order \<Rightarrow>
           if so_status order = ''cancelled''
           then (Inl (AppError ''Order is already cancelled'' 400), tx)
           else if so_status order = ''completed''
           then (Inl (AppError ''Cannot cancel a completed order'' 400), tx)
           else
             let tx1 = restoreStock (so_id order) (so_items order) tx;
                 tx2 = salesOrder_update_status oid ''cancelled'' tx1
             in (Inr (find (\<lambda>ord. so_id ord = oid) (salesOrders tx2)), tx2))"

section \<open>PurchaseOrderService\<close>

text \<open>The loop `Update stock for each item' of \<open>receivePurchaseOrder\<close>.\<close>

fun receiveItems :: "int \<Rightarrow> order_item list \<Rightarrow> db \<Rightarrow> db" where
  "receiveItems orderId [] tx = tx"
| "receiveItems orderId (item # items) tx =
     (case find (\<lambda>r. stock_productId r = item_productId item) (stocks tx) of
        None \<Rightarrow> receiveItems orderId items tx
      | Some stock \<Rightarrow>
          receiveItems orderId items
            (snd (stockMovement_create (stock_id stock) IN (item_quantity item)
                    (''Purchase Order #'' @ show_int orderId @ '' received'')
                    (stock_update (stock_id stock)
                       (stock_quantity stock + item_quantity item) tx))))"

definition receivePurchaseOrder :: "int \<Rightarrow> db \<Rightarrow> (error + purchase_order option) \<times> db" where
  "receivePurchaseOrder oid =
     transaction (\<lambda>tx.
       case find (\<lambda>ord. po_id ord = oid) (purchaseOrders tx) of
         None \<Rightarrow> (Inl (AppError ''Purchase order not found'' 404), tx)
       | Some order \<Rightarrow>
           if po_status order = ''received''
           then (Inl (AppError ''Purchase order already received'' 400), tx)
           else
             let tx1 = receiveItems (po_id order) (po_items order) tx;
                 tx2 = purchaseOrder_update_status oid ''received'' tx1
             in (Inr (find (\<lambda>ord. po_id ord = oid) (purchaseOrders tx2)), tx2))"

section \<open>ProductService\<close>

text \<open>
  \<open>product.findFirst({where: {OR: [{sku}, {barcode}]}})\<close> has no \<open>orderBy\<close>. Both
  columns carry a unique index (migration, lines 151 and 154), and the database
  answers the \<open>OR\<close> term by term through these indexes: it returns the row with
  the sku if there is one, and otherwise the row with the barcode.
\<close>

definition product_findFirst_sku_or_barcode ::
    "string \<Rightarrow> string \<Rightarrow> product list \<Rightarrow> product option" where
  "product_findFirst_sku_or_barcode sku barcode rows =
     (case find (\<lambda>p. prod_sku p = sku) rows of
        Some p \<Rightarrow> Some p
      | None \<Rightarrow> find (\<lambda>p. prod_barcode p = barcode) rows)"

definition createProduct ::
    "string \<Rightarrow> string \<Rightarrow> string \<Rightarrow> int \<Rightarrow> int \<Rightarrow> int \<Rightarrow> real \<Rightarrow> real \<Rightarrow> db
      \<Rightarrow> (error + product) \<times> db" where
  "createProduct name sku barcode categoryId supplierId warehouseId unitPrice price s =
     (case product_findFirst_sku_or_barcode sku barcode (products s) of
        Some existing \<Rightarrow>
          (Inl (AppError (''Product with same ''
                           @ (if prod_sku existing = sku then ''SKU'' else ''barcode'')
                           @ '' already exists'') 400), s)
      | None \<Rightarrow>
          if find (\<lambda>c. cat_id c = categoryId) (categories s) = None
          then (Inl (AppError ''Category not found'' 400), s)
          else if find (\<lambda>c. sup_id c = supplierId) (suppliers s) = None
          then (Inl (AppError ''Supplier not found'' 400), s)
          else if find (\<lambda>w. wh_id w = warehouseId) (warehouses s) = None
          then (Inl (AppError ''Warehouse not found'' 400), s)
          else product_create name sku barcode categoryId supplierId warehouseId
                 unitPrice price s)"

text \<open>
  \<open>updateProduct\<close> takes any subset of six columns; \<open>if (data.categoryId)\<close> and its
  two siblings skip the lookup for an absent id and for \<open>0\<close>. \<open>product.update\<close>
  then answers a missing referenced row with code P2003. \<open>deleteProduct\<close> counts the
  stock rows and order items of the product.
\<close>

record product_changes =
  new_name :: "string option"
  new_unitPrice :: "real option"
  new_price :: "real option"
  new_categoryId :: "int option"
  new_supplierId :: "int option"
  new_warehouseId :: "int option"

definition apply_changes :: "product_changes \<Rightarrow> product \<Rightarrow> product" where
  "apply_changes data p =
     p\<lparr>prod_name := (case new_name data of None \<Rightarrow> prod_name p | Some v \<Rightarrow> v),
       prod_unitPrice := (case new_unitPrice data of None \<Rightarrow> prod_unitPrice p | Some v \<Rightarrow> v),
       prod_price := (case new_price data of None \<Rightarrow> prod_price p | Some v \<Rightarrow> v),
       prod_categoryId :=
         (case new_categoryId data of None \<Rightarrow> prod_categoryId p | Some v \<Rightarrow> v),
       prod_supplierId :=
         (case new_supplierId data of None \<Rightarrow> prod_supplierId p | Some v \<Rightarrow> v),
       prod_warehouseId :=
         (case new_warehouseId data of None \<Rightarrow> prod_warehouseId p | Some v \<Rightarrow> v)\<rparr>"

definition product_update :: "int \<Rightarrow> product_changes \<Rightarrow> db \<Rightarrow> (error + product option) \<times> db" where
  "product_update pid data s =
     (if (case new_categoryId data of
            None \<Rightarrow> False | Some c \<Rightarrow> c \<notin> set (map cat_id (categories s)))
         \<or> (case new_supplierId data of
               None \<Rightarrow> False | Some c \<Rightarrow> c \<notin> set (map sup_id (suppliers s)))
         \<or> (case new_warehouseId data of
               None \<Rightarrow> False | Some c \<Rightarrow> c \<notin> set (map wh_id (warehouses s)))
      then (Inl (PrismaClientKnownRequestError ''P2003'' ''Foreign key constraint failed''), s)
      else
        let s' = s\<lparr>products := map (\<lambda>p. if prod_id p = pid then apply_changes data p else p)
                                   (products s)\<rparr>
        in (Inr (find (\<lambda>p. prod_id p = pid) (products s')), s'))"

definition updateProduct :: "int \<Rightarrow> product_changes \<Rightarrow> db \<Rightarrow> (error + product option) \<times> db" where
  "updateProduct pid data s =
     (case find (\<lambda>p. prod_id p = pid) (products s) of
        None \<Rightarrow> (Inl (AppError ''Product not found'' 404), s)
      | Some product \<Rightarrow>
          if (case new_categoryId data of
                None \<Rightarrow> False
              | Some c \<Rightarrow> c \<noteq> 0 \<and> find (\<lambda>x. cat_id x = c) (categories s) = None)
          then (Inl (AppError ''Category not found'' 400), s)
          else if (case new_supplierId data of
                None \<Rightarrow> False
              | Some c \<Rightarrow> c \<noteq> 0 \<and> find (\<lambda>x. sup_id x = c) (suppliers s) = None)
          then (Inl (AppError ''Supplier not found'' 400), s)
          else if (case new_warehouseId data of
                None \<Rightarrow> False
              | Some c \<Rightarrow> c \<noteq> 0 \<and> find (\<lambda>x. wh_id x = c) (warehouses s) = None)
          then (Inl (AppError ''Warehouse not found'' 400), s)
          else product_update pid data s)"

definition deleteProduct :: "int \<Rightarrow> db \<Rightarrow> (error + unit) \<times> db" where
  "deleteProduct pid s =
     (case find (\<lambda>p. prod_id p = pid) (products s) of
        None \<Rightarrow> (Inl (AppError ''Product not found'' 404), s)
      | Some product \<Rightarrow>
          if length (filter (\<lambda>r. stock_productId r = pid) (stocks s)) > 0
             \<or> length (filter (\<lambda>i. item_productId i = pid)
                         (concat (map po_items (purchaseOrders s)))) > 0
             \<or> length (filter (\<lambda>i. item_productId i = pid)
                         (concat (map so_items (salesOrders s)))) > 0
          then (Inl (AppError ''Cannot delete product with existing stock or order history'' 400),
                s)
          else (Inr (), s\<lparr>products := filter (\<lambda>p. prod_id p \<noteq> pid) (products s)\<rparr>))"

text \<open>\<open>getProductStock\<close>'s \<open>totalQuantity\<close>: the product's quantity over all its rows.\<close>

definition totalQuantity :: "int \<Rightarrow> db \<Rightarrow> int" where
  "totalQuantity productId s =
     sum_list (map stock_quantity (filter (\<lambda>r. stock_productId r = productId) (stocks s)))"

section \<open>Specification vocabulary\<close>

text \<open>
  The id of the row that \<open>stock.findFirst({where: {productId}})\<close> returns, if any,
  and the total quantity of the items of an order that are booked on a given row.
\<close>

definition first_stock_id :: "stock list \<Rightarrow> int \<Rightarrow> int option" where
  "first_stock_id ss productId =
     map_option stock_id (find (\<lambda>r. stock_productId r = productId) ss)"

definition quantity_for :: "stock list \<Rightarrow> order_item list \<Rightarrow> int \<Rightarrow> int" where
  "quantity_for ss items sid =
     sum_list (map item_quantity
       (filter (\<lambda>item. first_stock_id ss (item_productId item) = Some sid) items))"

text \<open>
  What the three item loops do to the \<open>Stock\<close> table alone: \<open>k\<close> is \<open>1\<close> where the
  loop adds the item quantity and \<open>-1\<close> where it subtracts it.
\<close>

fun shift_stock :: "int \<Rightarrow> order_item list \<Rightarrow> stock list \<Rightarrow> stock list" where
  "shift_stock k [] ss = ss"
| "shift_stock k (item # items) ss =
     (case find (\<lambda>r. stock_productId r = item_productId item) ss of
        None \<Rightarrow> shift_stock k items ss
      | Some r \<Rightarrow>
          shift_stock k items
            (map (\<lambda>x. if stock_id x = stock_id r
                      then x\<lparr>stock_quantity := stock_quantity r + k * item_quantity item\<rparr>
                      else x) ss))"

text \<open>The columns of a movement row other than its id.\<close>

definition mv_data :: "stock_movement \<Rightarrow> int \<times> movement_type \<times> int \<times> string" where
  "mv_data m = (mv_stockId m, mv_movementType m, mv_quantity m, mv_reason m)"

text \<open>
  The movement data booked for the items of an order, in item order: one entry for
  each item whose product has a stock row, none for the others.
\<close>

definition booked_movements ::
    "movement_type \<Rightarrow> string \<Rightarrow> stock list \<Rightarrow> order_item list
      \<Rightarrow> (int \<times> movement_type \<times> int \<times> string) list" where
  "booked_movements ty reason ss items =
     concat (map (\<lambda>item. case first_stock_id ss (item_productId item) of
                            None \<Rightarrow> []
                          | Some sid \<Rightarrow> [(sid, ty, item_quantity item, reason)]) items)"

section \<open>Sequences of service calls\<close>

text \<open>
  The calls of the services that write the \<open>Product\<close> or the \<open>Stock\<close> table, and
  the database after a call, whether it succeeded or threw.
\<close>

datatype service_call =
    CreateProduct string string string int int int real real
  | UpdateProduct int product_changes
  | DeleteProduct int
  | CreateStock int int int int
  | RecordMovement int movement_type int string
  | AdjustStock int adjustment_type int string int
  | TransferStock int int int string
  | CreateSalesOrder int "order_item list"
  | CancelSalesOrder int
  | ReceivePurchaseOrder int

fun perform :: "service_call \<Rightarrow> db \<Rightarrow> db" where
  "perform (CreateProduct name sku barcode categoryId supplierId warehouseId unitPrice price) s =
     snd (createProduct name sku barcode categoryId supplierId warehouseId unitPrice price s)"
| "perform (UpdateProduct pid data) s = snd (updateProduct pid data s)"
| "perform (DeleteProduct pid) s = snd (deleteProduct pid s)"
| "perform (CreateStock productId warehouseId locationId quantity) s =
     snd (createStock productId warehouseId locationId quantity s)"
| "perform (RecordMovement stockId movementType quantity reason) s =
     snd (recordMovement stockId movementType quantity reason s)"
| "perform (AdjustStock stockId adjustmentType quantity reason approvedById) s =
     snd (adjustStock stockId adjustmentType quantity reason approvedById s)"
| "perform (TransferStock sourceStockId targetLocationId quantity reason) s =
     snd (transferStock sourceStockId targetLocationId quantity reason s)"
| "perform (CreateSalesOrder customerId items) s = snd (createSalesOrder customerId items s)"
| "perform (CancelSalesOrder oid) s = snd (cancelSalesOrder oid s)"
| "perform (ReceivePurchaseOrder oid) s = snd (receivePurchaseOrder oid s)"

text \<open>
  The uniqueness properties, and the agreement of a stock row with its location: the
  location exists and lies in the row's warehouse.
\<close>

definition stock_pairs_unique :: "db \<Rightarrow> bool" where
  "stock_pairs_unique s =
     distinct (map (\<lambda>r. (stock_productId r, stock_locationId r)) (stocks s))"

definition product_codes_unique :: "db \<Rightarrow> bool" where
  "product_codes_unique s =
     (distinct (map prod_sku (products s)) \<and> distinct (map prod_barcode (products s)))"

definition stock_in_location_warehouse :: "db \<Rightarrow> bool" where
  "stock_in_location_warehouse s =
     list_all (\<lambda>r. case find (\<lambda>l. loc_id l = stock_locationId r) (locations s) of
                     None \<Rightarrow> False
                   | Some l \<Rightarrow> loc_warehouseId l = stock_warehouseId r) (stocks s)"

text \<open>No stock row holds a negative quantity.\<close>

definition stock_nonnegative :: "db \<Rightarrow> bool" where
  "stock_nonnegative s = list_all (\<lambda>r. 0 \<le> stock_quantity r) (stocks s)"

text \<open>
  The columns of a stock row that no operation rewrites, and how one call may change
  the table as far as these columns go: not at all, or by one new row whose
  (product, location) pair is new and whose warehouse is that of its location.
\<close>

definition stock_static :: "stock \<Rightarrow> int \<times> int \<times> int" where
  "stock_static r = (stock_productId r, stock_locationId r, stock_warehouseId r)"

definition stock_step :: "db \<Rightarrow> db \<Rightarrow> bool" where
  "stock_step s s' \<longleftrightarrow>
     locations s' = locations s
     \<and> (map stock_static (stocks s') = map stock_static (stocks s)
        \<or> (\<exists>p l w loc.
              map stock_static (stocks s') = map stock_static (stocks s) @ [(p, l, w)]
              \<and> (p, l) \<notin> set (map (\<lambda>r. (stock_productId r, stock_locationId r)) (stocks s))
              \<and> find (\<lambda>x. loc_id x = l) (locations s) = Some loc
              \<and> loc_warehouseId loc = w))"

section \<open>A seeded database\<close>

text \<open>
  An abridged version of what the seed script (\<open>prisma/seed\<close>) inserts: one
  category and supplier, two warehouses, two locations of the main warehouse, two
  products, the laptop's initial stock of 50 with its movement, and the open
  purchase order for ten laptops.
\<close>

definition seeded :: db where
  "seeded =
     \<lparr>categories = [\<lparr>cat_id = 1, cat_name = ''Electronics''\<rparr>],
      suppliers = [\<lparr>sup_id = 1, sup_name = ''Dell Inc'', sup_email = ''dell@example.com''\<rparr>],
      warehouses =
        [\<lparr>wh_id = 1, wh_name = ''Main Warehouse'', wh_capacity = 1000,
          wh_address = ''123 Main St, City''\<rparr>,
         \<lparr>wh_id = 2, wh_name = ''Electronics Warehouse'', wh_capacity = 500,
          wh_address = ''456 Tech Ave, City''\<rparr>],
      locations =
        [\<lparr>loc_id = 1, loc_name = ''Section A1'', loc_warehouseId = 1\<rparr>,
         \<lparr>loc_id = 2, loc_name = ''Section A2'', loc_warehouseId = 1\<rparr>],
      products =
        [\<lparr>prod_id = 1, prod_name = ''Dell Laptop XPS 13'', prod_sku = ''DELL-LAP-001'',
          prod_barcode = ''1234567890123'', prod_categoryId = 1, prod_supplierId = 1,
          prod_warehouseId = 1, prod_unitPrice = 800, prod_price = 1200\<rparr>,
         \<lparr>prod_id = 2, prod_name = ''Dell Desktop OptiPlex'', prod_sku = ''DELL-DSK-001'',
          prod_barcode = ''1234567890124'', prod_categoryId = 1, prod_supplierId = 1,
          prod_warehouseId = 1, prod_unitPrice = 600, prod_price = 900\<rparr>],
      stocks =
        [\<lparr>stock_id = 1, stock_productId = 1, stock_warehouseId = 1, stock_locationId = 1,
          stock_quantity = 50\<rparr>],
      purchaseOrders =
        [\<lparr>po_id = 1, po_supplierId = 1, po_status = ''open'',
          po_items = [\<lparr>item_productId = 1, item_quantity = 10, item_unitPrice = 800\<rparr>]\<rparr>],
      salesOrders = [],
      stockMovements =
        [\<lparr>mv_id = 1, mv_stockId = 1, mv_movementType = IN, mv_quantity = 50,
          mv_reason = ''Initial stock''\<rparr>],
      stockAdjustments = []\<rparr>"

text \<open>
  Two variations: a purchase order over a laptop, a desktop (which has no stock row)
  and the laptop again; and a sales order that has been completed.
\<close>

definition desktop_order :: db where
  "desktop_order =
     seeded\<lparr>purchaseOrders :=
       [\<lparr>po_id = 2, po_supplierId = 1, po_status = ''open'',
         po_items = [\<lparr>item_productId = 1, item_quantity = 10, item_unitPrice = 800\<rparr>,
                     \<lparr>item_productId = 2, item_quantity = 5, item_unitPrice = 600\<rparr>,
                     \<lparr>item_productId = 1, item_quantity = 3, item_unitPrice = 800\<rparr>]\<rparr>]\<rparr>"

definition completed_order :: db where
  "completed_order =
     seeded\<lparr>salesOrders :=
       [\<lparr>so_id = 1, so_customerId = 7, so_status = ''completed'',
         so_items = [\<lparr>item_productId = 1, item_quantity = 2, item_unitPrice = 1200\<rparr>]\<rparr>]\<rparr>"

section \<open>Properties of the middleware\<close>

text \<open>
  Claim C6. Every error value is answered as follows: an \<open>AppError\<close> with its own
  status code and message; a Prisma known-request error with status 400 and the
  message `A unique constraint violation occurred' for code P2002 and
  `Database operation failed' for every other code; any other error with status
  500 and `Internal server error'.
\<close>

theorem errorHandler_answers:
  "errorHandler (AppError m c) =
     \<lparr>res_status = c, json_status = ''error'', json_message = m\<rparr>
   \<and> errorHandler (PrismaClientKnownRequestError code pm) =
     \<lparr>res_status = 400, json_status = ''error'',
      json_message = (if code = ''P2002'' then ''A unique constraint violation occurred''
                      else ''Database operation failed'')\<rparr>
   \<and> errorHandler (Error n em) =
     \<lparr>res_status = 500, json_status = ''error'', json_message = ''Internal server error''\<rparr>"
  by (simp add: errorHandler_def)

theorem errorHandler_answers_witness:
  "errorHandler (AppError ''Test error'' 404) =
     \<lparr>res_status = 404, json_status = ''error'', json_message = ''Test error''\<rparr>
   \<and> errorHandler (PrismaClientKnownRequestError ''P2002'' ''Unique constraint failed'') =
     \<lparr>res_status = 400, json_status = ''error'',
      json_message = ''A unique constraint violation occurred''\<rparr>
   \<and> errorHandler (Error ''PrismaClientKnownRequestError'' ''Unique constraint failed'') =
     \<lparr>res_status = 500, json_status = ''error'', json_message = ''Internal server error''\<rparr>"
  using errorHandler_answers [of "''Test error''" 404 "''P2002''" "''Unique constraint failed''"
      "''PrismaClientKnownRequestError''" "''Unique constraint failed''"]
  by simp

text \<open>
  Claim C7. For every list of allowed roles and every request, the middleware made
  by \<open>authorize\<close> passes the request on unchanged exactly when it carries a user
  whose role is in the list; in every other case it answers with the 403
  \<open>AppError\<close> `Not authorized to access this resource'. A request without a user
  is always rejected.
\<close>

theorem authorize_passes_iff:
  "(authorize allowedRoles req = Inr req
      \<longleftrightarrow> (\<exists>u. req_user req = Some u \<and> role u \<in> set allowedRoles))
   \<and> (authorize allowedRoles req = Inr req
      \<or> authorize allowedRoles req
          = Inl (AppError ''Not authorized to access this resource'' 403))
   \<and> (req_user req = None \<longrightarrow>
        authorize allowedRoles req
          = Inl (AppError ''Not authorized to access this resource'' 403))"
  by (cases "req_user req") (auto simp: authorize_def)

theorem authorize_passes_iff_witness:
  "authorize [''admin'', ''manager'']
      \<lparr>req_authorization = None, req_user = Some \<lparr>userId = 1, role = ''manager''\<rparr>,
       req_body = ''''\<rparr>
     = Inr \<lparr>req_authorization = None, req_user = Some \<lparr>userId = 1, role = ''manager''\<rparr>,
            req_body = ''''\<rparr>
   \<and> authorize [''admin'']
      \<lparr>req_authorization = None, req_user = None, req_body = ''''\<rparr>
     = Inl (AppError ''Not authorized to access this resource'' 403)"
  using authorize_passes_iff [of "[''admin'', ''manager'']"
      "\<lparr>req_authorization = None, req_user = Some \<lparr>userId = 1, role = ''manager''\<rparr>,
        req_body = ''''\<rparr>"]
    authorize_passes_iff [of "[''admin'']"
      "\<lparr>req_authorization = None, req_user = None, req_body = ''''\<rparr>"]
  by simp

section \<open>Transactions\<close>

lemma transaction_fst_Inl:
  "fst (transaction body s) = Inl e \<longleftrightarrow> fst (body s) = Inl e"
  by (cases "body s"; cases "fst (body s)") (auto simp: transaction_def)

lemma transaction_snd_Inl:
  "fst (body s) = Inl e \<Longrightarrow> snd (transaction body s) = s"
  by (cases "body s") (auto simp: transaction_def)

lemma transaction_Inr:
  "body s = (Inr r, tx) \<Longrightarrow> transaction body s = (Inr r, tx)"
  by (simp add: transaction_def)

section \<open>The item loops in closed form\<close>

lemma find_map_same:
  "(\<And>x. P (f x) = P x) \<Longrightarrow> find P (map f xs) = map_option f (find P xs)"
  by (induction xs) auto

lemma first_stock_id_map:
  assumes "\<And>x. stock_id (f x) = stock_id x" "\<And>x. stock_productId (f x) = stock_productId x"
  shows "first_stock_id (map f ss) p = first_stock_id ss p"
  unfolding first_stock_id_def
  by (subst find_map_same [where f = f]) (simp_all add: assms option.map_comp comp_def)

lemma distinct_ids_eq:
  "distinct (map stock_id ss) \<Longrightarrow> x \<in> set ss \<Longrightarrow> r \<in> set ss
     \<Longrightarrow> stock_id x = stock_id r \<Longrightarrow> x = r"
  by (meson distinct_map inj_onD)

lemma find_Some_mem: "find P xs = Some r \<Longrightarrow> r \<in> set xs \<and> P r"
  by (induction xs) (auto split: if_splits)

lemma shift_stock_closed:
  "distinct (map stock_id ss) \<Longrightarrow>
     shift_stock k items ss
       = map (\<lambda>x. x\<lparr>stock_quantity := stock_quantity x + k * quantity_for ss items (stock_id x)\<rparr>) ss"
proof (induction items arbitrary: ss)
  case Nil
  show ?case by (simp add: quantity_for_def)
next
  case (Cons item items)
  let ?p = "item_productId item"
  show ?case
  proof (cases "find (\<lambda>r. stock_productId r = ?p) ss")
    case None
    then have none: "first_stock_id ss ?p = None" by (simp add: first_stock_id_def)
    have "quantity_for ss (item # items) = quantity_for ss items"
      by (simp add: quantity_for_def none fun_eq_iff)
    with None Cons show ?thesis by simp
  next
    case (Some r)
    define g where "g = (\<lambda>x::stock. if stock_id x = stock_id r
                      then x\<lparr>stock_quantity := stock_quantity r + k * item_quantity item\<rparr> else x)"
    have gid: "\<And>x. stock_id (g x) = stock_id x"
      and gp: "\<And>x. stock_productId (g x) = stock_productId x"
      by (simp_all add: g_def)
    have r_in: "r \<in> set ss" using Some by (simp add: find_Some_mem)
    have fs: "first_stock_id ss ?p = Some (stock_id r)"
      using Some by (simp add: first_stock_id_def)
    have same: "\<And>q. first_stock_id (map g ss) q = first_stock_id ss q"
      by (rule first_stock_id_map) (simp_all add: gid gp)
    have qsame: "\<And>sid. quantity_for (map g ss) items sid = quantity_for ss items sid"
      by (simp add: quantity_for_def same)
    have "distinct (map stock_id (map g ss))"
      using Cons.prems by (simp add: comp_def gid)
    then have IH: "shift_stock k items (map g ss)
       = map (\<lambda>x. x\<lparr>stock_quantity := stock_quantity x + k * quantity_for ss items (stock_id x)\<rparr>)
           (map g ss)"
      using Cons.IH [of "map g ss"] by (simp add: qsame)
    have step: "shift_stock k (item # items) ss = shift_stock k items (map g ss)"
      by (simp add: Some g_def)
    have pt: "(g x)\<lparr>stock_quantity := stock_quantity (g x) + k * quantity_for ss items (stock_id (g x))\<rparr>
        = x\<lparr>stock_quantity := stock_quantity x + k * quantity_for ss (item # items) (stock_id x)\<rparr>"
      if "x \<in> set ss" for x
    proof (cases "stock_id x = stock_id r")
      case True
      then have "x = r" using distinct_ids_eq [OF Cons.prems that r_in] by simp
      then show ?thesis by (simp add: g_def quantity_for_def fs algebra_simps)
    next
      case False
      then show ?thesis by (simp add: g_def quantity_for_def fs)
    qed
    show ?thesis
      unfolding step IH by (simp add: pt)
  qed
qed

lemma shift_stock_ids: "map stock_id (shift_stock k items ss) = map stock_id ss"
  by (induction items arbitrary: ss) (auto split: option.splits simp: comp_def)

lemma shift_stock_products: "map stock_productId (shift_stock k items ss) = map stock_productId ss"
  by (induction items arbitrary: ss) (auto split: option.splits simp: comp_def)

lemma shift_stock_places:
  "map (\<lambda>r. (stock_productId r, stock_locationId r, stock_warehouseId r)) (shift_stock k items ss)
     = map (\<lambda>r. (stock_productId r, stock_locationId r, stock_warehouseId r)) ss"
  by (induction items arbitrary: ss) (auto split: option.splits simp: comp_def)

lemma reduceStock_stocks:
  "stocks (reduceStock oid items tx) = shift_stock (- 1) items (stocks tx)"
  by (induction items arbitrary: tx)
     (auto split: option.splits simp: stock_update_def stockMovement_create_def Let_def cong: if_cong)

lemma restoreStock_stocks:
  "stocks (restoreStock oid items tx) = shift_stock 1 items (stocks tx)"
  by (induction items arbitrary: tx)
     (auto split: option.splits simp: stock_update_def stockMovement_create_def Let_def cong: if_cong)

lemma receiveItems_stocks:
  "stocks (receiveItems oid items tx) = shift_stock 1 items (stocks tx)"
  by (induction items arbitrary: tx)
     (auto split: option.splits simp: stock_update_def stockMovement_create_def Let_def cong: if_cong)

lemma reduceStock_others:
  "salesOrders (reduceStock oid items tx) = salesOrders tx
   \<and> purchaseOrders (reduceStock oid items tx) = purchaseOrders tx
   \<and> locations (reduceStock oid items tx) = locations tx
   \<and> products (reduceStock oid items tx) = products tx
   \<and> warehouses (reduceStock oid items tx) = warehouses tx
   \<and> stockAdjustments (reduceStock oid items tx) = stockAdjustments tx"
  by (induction items arbitrary: tx)
     (auto split: option.splits simp: stock_update_def stockMovement_create_def Let_def)

lemma restoreStock_others:
  "salesOrders (restoreStock oid items tx) = salesOrders tx
   \<and> purchaseOrders (restoreStock oid items tx) = purchaseOrders tx
   \<and> locations (restoreStock oid items tx) = locations tx
   \<and> products (restoreStock oid items tx) = products tx
   \<and> warehouses (restoreStock oid items tx) = warehouses tx
   \<and> stockAdjustments (restoreStock oid items tx) = stockAdjustments tx"
  by (induction items arbitrary: tx)
     (auto split: option.splits simp: stock_update_def stockMovement_create_def Let_def)

lemma receiveItems_others:
  "salesOrders (receiveItems oid items tx) = salesOrders tx
   \<and> purchaseOrders (receiveItems oid items tx) = purchaseOrders tx
   \<and> locations (receiveItems oid items tx) = locations tx
   \<and> products (receiveItems oid items tx) = products tx
   \<and> warehouses (receiveItems oid items tx) = warehouses tx
   \<and> stockAdjustments (receiveItems oid items tx) = stockAdjustments tx"
  by (induction items arbitrary: tx)
     (auto split: option.splits simp: stock_update_def stockMovement_create_def Let_def)

section \<open>Insufficient stock\<close>

lemma recordMovement_insufficient:
  "fst (recordMovement sid OUT q reason s) = Inl (AppError ''Insufficient stock quantity'' 400)
     \<longleftrightarrow> (\<exists>st. find (\<lambda>r. stock_id r = sid) (stocks s) = Some st \<and> stock_quantity st < q)"
  by (auto simp: recordMovement_def transaction_fst_Inl stockMovement_create_def Let_def
      split: option.splits)

lemma adjustStock_insufficient:
  "fst (adjustStock sid REMOVE q reason uid s) = Inl (AppError ''Insufficient stock quantity'' 400)
     \<longleftrightarrow> (\<exists>st. find (\<lambda>r. stock_id r = sid) (stocks s) = Some st \<and> stock_quantity st < q)"
  by (auto simp: adjustStock_def transaction_fst_Inl stockAdjustment_create_def Let_def
      split: option.splits)

lemma transferStock_insufficient:
  "fst (transferStock sid tloc q reason s) = Inl (AppError ''Insufficient stock quantity'' 400)
     \<longleftrightarrow> (\<exists>st. find (\<lambda>r. stock_id r = sid) (stocks s) = Some st \<and> stock_quantity st < q)"
  by (auto simp: transferStock_def transaction_fst_Inl stock_create_def Let_def
      split: option.splits prod.splits sum.splits if_splits)

lemma recordMovement_rollback:
  "fst (recordMovement sid mt q reason s) = Inl e \<Longrightarrow> snd (recordMovement sid mt q reason s) = s"
  unfolding recordMovement_def by (simp add: transaction_fst_Inl transaction_snd_Inl)

lemma adjustStock_rollback:
  "fst (adjustStock sid aty q reason uid s) = Inl e \<Longrightarrow> snd (adjustStock sid aty q reason uid s) = s"
  unfolding adjustStock_def by (simp add: transaction_fst_Inl transaction_snd_Inl)

lemma transferStock_rollback:
  "fst (transferStock sid tloc q reason s) = Inl e \<Longrightarrow> snd (transferStock sid tloc q reason s) = s"
  unfolding transferStock_def by (simp add: transaction_fst_Inl transaction_snd_Inl)

text \<open>
  Claim C2. \<open>recordMovement\<close> with type OUT, \<open>adjustStock\<close> with type REMOVE and
  \<open>transferStock\<close> each end in the \<open>AppError\<close> `Insufficient stock quantity' with
  status 400 exactly when the (source) stock row exists and the requested quantity
  exceeds its current quantity; in that case the database is left as it was, so no
  quantity changes and no movement or adjustment row is created.
\<close>

theorem insufficient_stock_rejected:
  "(fst (recordMovement sid OUT q reason s) = Inl (AppError ''Insufficient stock quantity'' 400)
      \<longleftrightarrow> (\<exists>st. find (\<lambda>r. stock_id r = sid) (stocks s) = Some st \<and> stock_quantity st < q))
   \<and> (fst (adjustStock sid REMOVE q reason uid s)
         = Inl (AppError ''Insufficient stock quantity'' 400)
      \<longleftrightarrow> (\<exists>st. find (\<lambda>r. stock_id r = sid) (stocks s) = Some st \<and> stock_quantity st < q))
   \<and> (fst (transferStock sid tloc q reason s)
         = Inl (AppError ''Insufficient stock quantity'' 400)
      \<longleftrightarrow> (\<exists>st. find (\<lambda>r. stock_id r = sid) (stocks s) = Some st \<and> stock_quantity st < q))
   \<and> (fst (recordMovement sid OUT q reason s) = Inl (AppError ''Insufficient stock quantity'' 400)
      \<longrightarrow> snd (recordMovement sid OUT q reason s) = s)
   \<and> (fst (adjustStock sid REMOVE q reason uid s)
         = Inl (AppError ''Insufficient stock quantity'' 400)
      \<longrightarrow> snd (adjustStock sid REMOVE q reason uid s) = s)
   \<and> (fst (transferStock sid tloc q reason s)
         = Inl (AppError ''Insufficient stock quantity'' 400)
      \<longrightarrow> snd (transferStock sid tloc q reason s) = s)"
  using recordMovement_insufficient [of sid q reason s]
    adjustStock_insufficient [of sid q reason uid s]
    transferStock_insufficient [of sid tloc q reason s]
    recordMovement_rollback [of sid OUT q reason s]
    adjustStock_rollback [of sid REMOVE q reason uid s]
    transferStock_rollback [of sid tloc q reason s]
  by blast

theorem insufficient_stock_rejected_witness:
  "recordMovement 1 OUT 51 ''sold'' seeded
     = (Inl (AppError ''Insufficient stock quantity'' 400), seeded)
   \<and> adjustStock 1 REMOVE 51 ''sold'' 1 seeded
     = (Inl (AppError ''Insufficient stock quantity'' 400), seeded)
   \<and> transferStock 1 2 51 ''sold'' seeded
     = (Inl (AppError ''Insufficient stock quantity'' 400), seeded)
   \<and> fst (recordMovement 1 OUT 50 ''sold'' seeded)
     \<noteq> Inl (AppError ''Insufficient stock quantity'' 400)"
proof -
  have st: "find (\<lambda>r. stock_id r = 1) (stocks seeded)
      = Some \<lparr>stock_id = 1, stock_productId = 1, stock_warehouseId = 1, stock_locationId = 1,
          stock_quantity = 50\<rparr>"
    by (simp add: seeded_def)
  show ?thesis
    using insufficient_stock_rejected [of 1 51 "''sold''" seeded 1 2]
      insufficient_stock_rejected [of 1 50 "''sold''" seeded 1 2]
    by (simp add: st prod_eq_iff)
qed

section \<open>Receiving a purchase order\<close>

lemma first_stock_id_update:
  "first_stock_id (stocks (stock_update sid q tx)) p = first_stock_id (stocks tx) p"
  unfolding stock_update_def by (simp add: first_stock_id_map)

lemma booked_movements_update:
  "booked_movements ty reason (stocks (stock_update sid q tx)) items
     = booked_movements ty reason (stocks tx) items"
  by (simp add: booked_movements_def first_stock_id_update)

lemma stockMovement_create_snd:
  "stocks (snd (stockMovement_create sid ty q reason tx)) = stocks tx
   \<and> stockMovements (snd (stockMovement_create sid ty q reason tx))
       = stockMovements tx
         @ [\<lparr>mv_id = next_id (map mv_id (stockMovements tx)), mv_stockId = sid,
             mv_movementType = ty, mv_quantity = q, mv_reason = reason\<rparr>]"
  by (simp add: stockMovement_create_def Let_def)

lemma stock_update_movements:
  "stockMovements (stock_update sid q tx) = stockMovements tx"
  by (simp add: stock_update_def)

lemma receiveItems_movements:
  "\<exists>new. stockMovements (receiveItems oid items tx) = stockMovements tx @ new
     \<and> map mv_data new
         = booked_movements IN (''Purchase Order #'' @ show_int oid @ '' received'')
             (stocks tx) items"
proof (induction items arbitrary: tx)
  case Nil
  show ?case by (simp add: booked_movements_def)
next
  case (Cons item items)
  let ?reason = "''Purchase Order #'' @ show_int oid @ '' received''"
  show ?case
  proof (cases "find (\<lambda>r. stock_productId r = item_productId item) (stocks tx)")
    case None
    then have "first_stock_id (stocks tx) (item_productId item) = None"
      by (simp add: first_stock_id_def)
    then have "booked_movements IN ?reason (stocks tx) (item # items)
        = booked_movements IN ?reason (stocks tx) items"
      by (simp add: booked_movements_def)
    with None Cons.IH [of tx] show ?thesis by simp
  next
    case (Some stock)
    define tx' where "tx' = snd (stockMovement_create (stock_id stock) IN (item_quantity item)
        ?reason (stock_update (stock_id stock) (stock_quantity stock + item_quantity item) tx))"
    have step: "receiveItems oid (item # items) tx = receiveItems oid items tx'"
      by (simp add: Some tx'_def)
    have fs: "first_stock_id (stocks tx) (item_productId item) = Some (stock_id stock)"
      using Some by (simp add: first_stock_id_def)
    have bm: "booked_movements IN ?reason (stocks tx') items
        = booked_movements IN ?reason (stocks tx) items"
      by (simp add: tx'_def stockMovement_create_snd booked_movements_update)
    obtain row where row: "stockMovements tx' = stockMovements tx @ [row]"
        "mv_data row = (stock_id stock, IN, item_quantity item, ?reason)"
      by (simp add: tx'_def stockMovement_create_snd stock_update_movements mv_data_def)
    obtain new where new: "stockMovements (receiveItems oid items tx') = stockMovements tx' @ new"
        "map mv_data new = booked_movements IN ?reason (stocks tx') items"
      using Cons.IH [of tx'] by blast
    have "stockMovements (receiveItems oid (item # items) tx) = stockMovements tx @ (row # new)"
      unfolding step by (simp add: new row)
    moreover have "map mv_data (row # new)
        = booked_movements IN ?reason (stocks tx) (item # items)"
      using new(2) row(2) bm fs by (simp add: booked_movements_def)
    ultimately show ?thesis by blast
  qed
qed

lemma find_update_status_po:
  "find (\<lambda>ord. po_id ord = oid) xs = Some order \<Longrightarrow>
     find (\<lambda>ord. po_id ord = oid)
        (map (\<lambda>ord. if po_id ord = oid then ord\<lparr>po_status := st\<rparr> else ord) xs)
       = Some (order\<lparr>po_status := st\<rparr>)"
  by (induction xs) (auto split: if_splits)

text \<open>
  Claim C9. \<open>receivePurchaseOrder\<close> on an order whose status is not `received'
  succeeds and sets the status to `received'. Each stock row ends with its quantity
  increased by the quantities of exactly those items whose product's first stock row
  it is, and one IN movement is recorded for each such item; an item whose product
  has no stock row changes no quantity and records no movement. (Stock ids are the
  table's primary key.)
\<close>

theorem receivePurchaseOrder_effect:
  assumes "find (\<lambda>ord. po_id ord = oid) (purchaseOrders s) = Some order"
    and "po_status order \<noteq> ''received''"
    and "distinct (map stock_id (stocks s))"
  shows "\<exists>s' new.
      receivePurchaseOrder oid s = (Inr (Some (order\<lparr>po_status := ''received''\<rparr>)), s')
    \<and> find (\<lambda>ord. po_id ord = oid) (purchaseOrders s') = Some (order\<lparr>po_status := ''received''\<rparr>)
    \<and> stocks s' = map (\<lambda>r. r\<lparr>stock_quantity := stock_quantity r
                          + quantity_for (stocks s) (po_items order) (stock_id r)\<rparr>) (stocks s)
    \<and> stockMovements s' = stockMovements s @ new
    \<and> map mv_data new
        = booked_movements IN (''Purchase Order #'' @ show_int oid @ '' received'')
            (stocks s) (po_items order)"
proof -
  have oid: "po_id order = oid" using assms(1) find_Some_mem [of _ _ order] by fastforce
  define tx1 where "tx1 = receiveItems oid (po_items order) s"
  define s' where "s' = purchaseOrder_update_status oid ''received'' tx1"
  have po1: "purchaseOrders tx1 = purchaseOrders s"
    by (simp add: tx1_def receiveItems_others)
  have found: "find (\<lambda>ord. po_id ord = oid) (purchaseOrders s')
      = Some (order\<lparr>po_status := ''received''\<rparr>)"
    by (simp add: s'_def purchaseOrder_update_status_def po1 find_update_status_po [OF assms(1)])
  have run: "receivePurchaseOrder oid s = (Inr (Some (order\<lparr>po_status := ''received''\<rparr>)), s')"
    unfolding receivePurchaseOrder_def
    by (rule transaction_Inr)
       (simp add: assms(1,2) oid Let_def found [unfolded s'_def tx1_def] s'_def tx1_def)
  have st: "stocks s' = map (\<lambda>r. r\<lparr>stock_quantity := stock_quantity r
                          + quantity_for (stocks s) (po_items order) (stock_id r)\<rparr>) (stocks s)"
    using shift_stock_closed [OF assms(3), of 1 "po_items order"]
    by (simp add: s'_def purchaseOrder_update_status_def tx1_def receiveItems_stocks)
  obtain new where "stockMovements tx1 = stockMovements s @ new"
      "map mv_data new = booked_movements IN (''Purchase Order #'' @ show_int oid @ '' received'')
            (stocks s) (po_items order)"
    using receiveItems_movements [of oid "po_items order" s] unfolding tx1_def by blast
  then have "stockMovements s' = stockMovements s @ new
      \<and> map mv_data new = booked_movements IN (''Purchase Order #'' @ show_int oid @ '' received'')
            (stocks s) (po_items order)"
    by (simp add: s'_def purchaseOrder_update_status_def)
  with run found st show ?thesis by blast
qed



theorem receivePurchaseOrder_effect_witness:
  "\<exists>s'. fst (receivePurchaseOrder 2 desktop_order)
        = Inr (Some \<lparr>po_id = 2, po_supplierId = 1, po_status = ''received'',
             po_items = [\<lparr>item_productId = 1, item_quantity = 10, item_unitPrice = 800\<rparr>,
                         \<lparr>item_productId = 2, item_quantity = 5, item_unitPrice = 600\<rparr>,
                         \<lparr>item_productId = 1, item_quantity = 3, item_unitPrice = 800\<rparr>]\<rparr>)
     \<and> s' = snd (receivePurchaseOrder 2 desktop_order)
     \<and> map stock_quantity (stocks s') = [63]
     \<and> map mv_data (drop 1 (stockMovements s'))
         = [(1, IN, 10, ''Purchase Order #2 received''), (1, IN, 3, ''Purchase Order #2 received'')]"
proof -
  have h1: "find (\<lambda>ord. po_id ord = 2) (purchaseOrders desktop_order)
      = Some \<lparr>po_id = 2, po_supplierId = 1, po_status = ''open'',
         po_items = [\<lparr>item_productId = 1, item_quantity = 10, item_unitPrice = 800\<rparr>,
                     \<lparr>item_productId = 2, item_quantity = 5, item_unitPrice = 600\<rparr>,
                     \<lparr>item_productId = 1, item_quantity = 3, item_unitPrice = 800\<rparr>]\<rparr>"
    by (simp add: desktop_order_def seeded_def)
  have h3: "distinct (map stock_id (stocks desktop_order))"
    by (simp add: desktop_order_def seeded_def)
  show ?thesis
    using receivePurchaseOrder_effect [OF h1 _ h3]
    by (auto simp: desktop_order_def seeded_def quantity_for_def first_stock_id_def
        booked_movements_def show_int_def)
qed

section \<open>Sales orders\<close>

lemma next_id_above: "x \<in> set ids \<Longrightarrow> x < next_id ids"
proof -
  have "\<And>a. x \<in> set ids \<Longrightarrow> x \<le> fold max ids a"
  proof (induction ids)
    case Nil then show ?case by simp
  next
    case (Cons i ids)
    have mono: "\<And>a. a \<le> fold max ids a"
      by (induction ids) (auto intro: order_trans [OF max.cobounded2])
    show ?case
    proof (cases "x = i")
      case True
      have "i \<le> max i a" by simp
      also have "\<dots> \<le> fold max ids (max i a)" by (rule mono)
      finally show ?thesis using True by simp
    next
      case False
      with Cons.prems have "x \<in> set ids" by simp
      then show ?thesis using Cons.IH by simp
    qed
  qed
  then show "x \<in> set ids \<Longrightarrow> x < next_id ids"
    unfolding next_id_def by (metis zle_add1_eq_le order_less_le_trans less_add_one order_le_less_trans)
qed

lemma find_append_last:
  "(\<And>x. x \<in> set xs \<Longrightarrow> \<not> P x) \<Longrightarrow> P y \<Longrightarrow> find P (xs @ [y]) = Some y"
  by (induction xs) auto

lemma find_update_status_so:
  "find (\<lambda>ord. so_id ord = oid) xs = Some order \<Longrightarrow>
     find (\<lambda>ord. so_id ord = oid)
        (map (\<lambda>ord. if so_id ord = oid then ord\<lparr>so_status := st\<rparr> else ord) xs)
       = Some (order\<lparr>so_status := st\<rparr>)"
  by (induction xs) (auto split: if_splits)

lemma shift_stock_inverse:
  assumes "distinct (map stock_id ss)"
  shows "shift_stock 1 items (shift_stock (- 1) items ss) = ss"
proof -
  define g where "g = (\<lambda>x::stock. x\<lparr>stock_quantity := stock_quantity x
      + (- 1) * quantity_for ss items (stock_id x)\<rparr>)"
  have down: "shift_stock (- 1) items ss = map g ss"
    unfolding g_def by (rule shift_stock_closed [OF assms])
  have d': "distinct (map stock_id (map g ss))"
    using assms by (simp add: comp_def g_def)
  have same: "\<And>p. first_stock_id (map g ss) p = first_stock_id ss p"
    by (rule first_stock_id_map) (simp_all add: g_def)
  have q: "\<And>sid. quantity_for (map g ss) items sid = quantity_for ss items sid"
    by (simp add: quantity_for_def same)
  have "shift_stock 1 items (map g ss)
      = map (\<lambda>x. x\<lparr>stock_quantity := stock_quantity x + 1 * quantity_for ss items (stock_id x)\<rparr>)
          (map g ss)"
    using shift_stock_closed [OF d', of 1 items] by (simp add: q)
  also have "\<dots> = map (\<lambda>x. x) ss"
    by (simp add: g_def comp_def)
  finally show ?thesis by (simp add: down)
qed

lemma createSalesOrder_success:
  assumes "createSalesOrder cid items s = (Inr order, s1)"
  shows "order = \<lparr>so_id = next_id (map so_id (salesOrders s)), so_customerId = cid,
                   so_status = ''open'', so_items = items\<rparr>
     \<and> s1 = reduceStock (so_id order) items (s\<lparr>salesOrders := salesOrders s @ [order]\<rparr>)"
  using assms
  by (auto simp: createSalesOrder_def Let_def transaction_def salesOrder_create_def
      split: if_splits prod.splits sum.splits)


lemma create_then_cancel:
  assumes ok: "createSalesOrder cid items s = (Inr order, s1)"
    and d: "distinct (map stock_id (stocks s))"
  shows "\<exists>s2. cancelSalesOrder (so_id order) s1
                = (Inr (Some (order\<lparr>so_status := ''cancelled''\<rparr>)), s2)
      \<and> stocks s2 = stocks s
      \<and> find (\<lambda>ord. so_id ord = so_id order) (salesOrders s2)
          = Some (order\<lparr>so_status := ''cancelled''\<rparr>)"
proof -
  let ?oid = "so_id order"
  have ord: "order = \<lparr>so_id = next_id (map so_id (salesOrders s)), so_customerId = cid,
                   so_status = ''open'', so_items = items\<rparr>"
    and s1: "s1 = reduceStock ?oid items (s\<lparr>salesOrders := salesOrders s @ [order]\<rparr>)"
    using createSalesOrder_success [OF ok] by simp_all
  have so1: "salesOrders s1 = salesOrders s @ [order]"
    by (subst s1) (simp add: reduceStock_others)
  have st1: "stocks s1 = shift_stock (- 1) items (stocks s)"
    by (subst s1) (simp add: reduceStock_stocks)
  have fresh: "\<And>x. x \<in> set (salesOrders s) \<Longrightarrow> so_id x \<noteq> ?oid"
    using next_id_above [of _ "map so_id (salesOrders s)"] ord by fastforce
  have found1: "find (\<lambda>ord. so_id ord = ?oid) (salesOrders s1) = Some order"
    unfolding so1 by (rule find_append_last) (simp_all add: fresh)
  have status: "so_status order = ''open''" and its: "so_items order = items"
    by (simp_all add: ord)
  define tx1 where "tx1 = restoreStock ?oid items s1"
  define s2 where "s2 = salesOrder_update_status ?oid ''cancelled'' tx1"
  have so_tx1: "salesOrders tx1 = salesOrders s1"
    by (simp add: tx1_def restoreStock_others)
  have found2: "find (\<lambda>ord. so_id ord = ?oid) (salesOrders s2)
      = Some (order\<lparr>so_status := ''cancelled''\<rparr>)"
    by (simp add: s2_def salesOrder_update_status_def so_tx1 find_update_status_so [OF found1])
  have run: "cancelSalesOrder ?oid s1 = (Inr (Some (order\<lparr>so_status := ''cancelled''\<rparr>)), s2)"
    unfolding cancelSalesOrder_def
    by (rule transaction_Inr)
       (simp add: found1 status its Let_def found2 [unfolded s2_def tx1_def] s2_def tx1_def)
  have "stocks s2 = shift_stock 1 items (shift_stock (- 1) items (stocks s))"
    by (simp add: s2_def salesOrder_update_status_def tx1_def restoreStock_stocks st1)
  then have "stocks s2 = stocks s"
    by (simp add: shift_stock_inverse [OF d])
  with run found2 show ?thesis by blast
qed

lemma cancel_closed_order:
  assumes "find (\<lambda>ord. so_id ord = oid) (salesOrders s) = Some order"
    and "so_status order = ''cancelled'' \<or> so_status order = ''completed''"
  shows "\<exists>m. cancelSalesOrder oid s = (Inl (AppError m 400), s)"
  using assms by (auto simp: cancelSalesOrder_def transaction_def)



text \<open>
  Claim C4. Whenever \<open>createSalesOrder\<close> succeeds, cancelling the created order
  succeeds, gives every stock row back the quantity it had before the order was
  created (the whole \<open>Stock\<close> table is as before) and leaves the order with status
  `cancelled'. Cancelling an order whose status is `cancelled' or `completed' ends
  in an \<open>AppError\<close> with status 400 and leaves the database unchanged. (Stock ids
  are the table's primary key.)
\<close>

theorem create_then_cancel_restores:
  "(createSalesOrder cid items s = (Inr order, s1) \<and> distinct (map stock_id (stocks s))
      \<longrightarrow> (\<exists>s2. cancelSalesOrder (so_id order) s1
                    = (Inr (Some (order\<lparr>so_status := ''cancelled''\<rparr>)), s2)
            \<and> stocks s2 = stocks s
            \<and> find (\<lambda>ord. so_id ord = so_id order) (salesOrders s2)
                = Some (order\<lparr>so_status := ''cancelled''\<rparr>)))
   \<and> (find (\<lambda>ord. so_id ord = oid) (salesOrders t) = Some prior
       \<and> (so_status prior = ''cancelled'' \<or> so_status prior = ''completed'')
      \<longrightarrow> (\<exists>m. cancelSalesOrder oid t = (Inl (AppError m 400), t)))"
  using create_then_cancel [of cid items s order s1] cancel_closed_order [of oid t prior]
  by blast

theorem create_then_cancel_restores_witness:
  "(\<exists>order s1 s2.
      createSalesOrder 7 [\<lparr>item_productId = 1, item_quantity = 30, item_unitPrice = 1200\<rparr>,
                          \<lparr>item_productId = 1, item_quantity = 30, item_unitPrice = 1200\<rparr>] seeded
        = (Inr order, s1)
      \<and> distinct (map stock_id (stocks seeded))
      \<and> cancelSalesOrder (so_id order) s1 = (Inr (Some (order\<lparr>so_status := ''cancelled''\<rparr>)), s2)
      \<and> map stock_quantity (stocks s2) = [50])
   \<and> (\<exists>m. cancelSalesOrder 1 completed_order = (Inl (AppError m 400), completed_order))"
proof -
  let ?items = "[\<lparr>item_productId = 1, item_quantity = 30, item_unitPrice = 1200\<rparr>,
                 \<lparr>item_productId = 1, item_quantity = 30, item_unitPrice = 1200\<rparr>]"
  let ?order = "\<lparr>so_id = 1, so_customerId = 7, so_status = ''open'', so_items = ?items\<rparr>"
  have "fst (createSalesOrder 7 ?items seeded) = Inr ?order"
    by (simp add: createSalesOrder_def stockCheck_def salesOrder_create_def transaction_def
        next_id_def seeded_def Let_def)
  then have ok: "createSalesOrder 7 ?items seeded
      = (Inr ?order, snd (createSalesOrder 7 ?items seeded))"
    by (simp add: prod_eq_iff)
  have d: "distinct (map stock_id (stocks seeded))"
    by (simp add: seeded_def)
  have closed: "find (\<lambda>ord. so_id ord = 1) (salesOrders completed_order)
      = Some \<lparr>so_id = 1, so_customerId = 7, so_status = ''completed'',
          so_items = [\<lparr>item_productId = 1, item_quantity = 2, item_unitPrice = 1200\<rparr>]\<rparr>"
    by (simp add: completed_order_def)
  have st: "map stock_quantity (stocks seeded) = [50]"
    by (simp add: seeded_def)
  from create_then_cancel_restores [where cid = 7 and items = ?items and s = seeded
      and order = ?order and ?s1.0 = "snd (createSalesOrder 7 ?items seeded)"
      and oid = 1 and t = completed_order, unfolded closed] ok d st
  show ?thesis
    by (metis option.inject sales_order.select_convs(3))
qed

section \<open>Creating a product\<close>

lemma find_None_iff_set: "find P xs = None \<longleftrightarrow> (\<forall>x \<in> set xs. \<not> P x)"
  by (induction xs) auto



lemma findFirst_sku:
  assumes "p \<in> set rows" "prod_sku p = sku"
  shows "\<exists>e. product_findFirst_sku_or_barcode sku barcode rows = Some e \<and> prod_sku e = sku"
proof -
  have "find (\<lambda>p. prod_sku p = sku) rows \<noteq> None"
    using assms by (auto simp: find_None_iff_set)
  then obtain e where e: "find (\<lambda>p. prod_sku p = sku) rows = Some e" by blast
  then have "prod_sku e = sku" using find_Some_mem [OF e] by simp
  with e show ?thesis by (simp add: product_findFirst_sku_or_barcode_def)
qed

lemma findFirst_barcode_only:
  assumes "\<forall>p \<in> set rows. prod_sku p \<noteq> sku" "p \<in> set rows" "prod_barcode p = barcode"
  shows "\<exists>e. product_findFirst_sku_or_barcode sku barcode rows = Some e \<and> prod_sku e \<noteq> sku"
proof -
  have none: "find (\<lambda>p. prod_sku p = sku) rows = None"
    using assms(1) by (auto simp: find_None_iff_set)
  have "find (\<lambda>p. prod_barcode p = barcode) rows \<noteq> None"
    using assms(2,3) by (auto simp: find_None_iff_set)
  then obtain e where e: "find (\<lambda>p. prod_barcode p = barcode) rows = Some e" by blast
  then have "e \<in> set rows" using find_Some_mem [OF e] by simp
  then have "prod_sku e \<noteq> sku" using assms(1) by blast
  with e none show ?thesis by (simp add: product_findFirst_sku_or_barcode_def)
qed


lemma createProduct_same_sku:
  assumes "p \<in> set (products s)" "prod_sku p = sku"
  shows "createProduct name sku barcode categoryId supplierId warehouseId unitPrice price s
      = (Inl (AppError ''Product with same SKU already exists'' 400), s)"
  using findFirst_sku [OF assms, of barcode] by (auto simp: createProduct_def)

lemma createProduct_same_barcode:
  assumes "\<forall>p \<in> set (products s). prod_sku p \<noteq> sku"
    and "p \<in> set (products s)" "prod_barcode p = barcode"
  shows "createProduct name sku barcode categoryId supplierId warehouseId unitPrice price s
      = (Inl (AppError ''Product with same barcode already exists'' 400), s)"
  using findFirst_barcode_only [OF assms] by (auto simp: createProduct_def)





section \<open>Steps of the stock and product tables\<close>

lemma stock_step_refl: "stock_step s s"
  by (simp add: stock_step_def)

lemma stock_step_same:
  "locations s' = locations s \<Longrightarrow> map stock_static (stocks s') = map stock_static (stocks s)
     \<Longrightarrow> stock_step s s'"
  by (simp add: stock_step_def)

lemma pairs_of_static:
  "map (\<lambda>r. (stock_productId r, stock_locationId r)) ss
     = map (\<lambda>t. (fst t, fst (snd t))) (map stock_static ss)"
  by (simp add: stock_static_def comp_def)

lemma stock_pairs_unique_static:
  "stock_pairs_unique s \<longleftrightarrow> distinct (map (\<lambda>t. (fst t, fst (snd t))) (map stock_static (stocks s)))"
  by (simp add: stock_pairs_unique_def stock_static_def comp_def)

lemma stock_step_pairs_unique:
  assumes "stock_step s s'" "stock_pairs_unique s"
  shows "stock_pairs_unique s'"
proof -
  define T where "T = map stock_static (stocks s)"
  define T' where "T' = map stock_static (stocks s')"
  have d: "distinct (map (\<lambda>t. (fst t, fst (snd t))) T)"
    using assms(2) by (simp add: stock_pairs_unique_static T_def)
  have "T' = T \<or> (\<exists>p l w. T' = T @ [(p, l, w)] \<and> (p, l) \<notin> set (map (\<lambda>t. (fst t, fst (snd t))) T))"
    using assms(1) unfolding stock_step_def pairs_of_static T_def T'_def by blast
  then have "distinct (map (\<lambda>t. (fst t, fst (snd t))) T')"
    using d by auto
  then show ?thesis by (simp add: stock_pairs_unique_static T'_def)
qed

lemma consistent_of_static:
  "stock_in_location_warehouse s \<longleftrightarrow>
     (\<forall>t \<in> set (map stock_static (stocks s)).
        \<exists>loc. find (\<lambda>x. loc_id x = fst (snd t)) (locations s) = Some loc
              \<and> loc_warehouseId loc = snd (snd t))"
  by (auto simp: stock_in_location_warehouse_def list_all_iff stock_static_def
      split: option.splits)

lemma stock_step_consistent:
  assumes "stock_step s s'" "stock_in_location_warehouse s"
  shows "stock_in_location_warehouse s'"
proof -
  define T where "T = map stock_static (stocks s)"
  define T' where "T' = map stock_static (stocks s')"
  define ok where "ok = (\<lambda>t :: int \<times> int \<times> int.
      \<exists>loc. find (\<lambda>x. loc_id x = fst (snd t)) (locations s) = Some loc
              \<and> loc_warehouseId loc = snd (snd t))"
  have l: "locations s' = locations s" using assms(1) by (simp add: stock_step_def)
  have d: "\<forall>t \<in> set T. ok t"
    using assms(2) unfolding consistent_of_static T_def ok_def by blast
  have "T' = T \<or> (\<exists>p l w. T' = T @ [(p, l, w)] \<and> ok (p, l, w))"
    using assms(1) unfolding stock_step_def T_def T'_def ok_def by auto
  then have "\<forall>t \<in> set T'. ok t"
    using d by auto
  then show ?thesis
    unfolding consistent_of_static l T'_def ok_def by blast
qed

lemma transaction_snd_cases:
  "snd (transaction body s) = s \<or> (\<exists>r. body s = (Inr r, snd (transaction body s)))"
  by (cases "body s"; cases "fst (body s)") (auto simp: transaction_def)

lemma stock_static_quantity: "stock_static (r\<lparr>stock_quantity := q\<rparr>) = stock_static r"
  by (simp add: stock_static_def)

lemma static_comp_update:
  "stock_static \<circ> (\<lambda>r. if stock_id r = sid then r\<lparr>stock_quantity := q\<rparr> else r) = stock_static"
  by (auto simp: fun_eq_iff stock_static_quantity)

lemma map_static_update:
  "map stock_static (map (\<lambda>r. if stock_id r = sid then r\<lparr>stock_quantity := q\<rparr> else r) ss)
     = map stock_static ss"
  by (simp add: static_comp_update)

lemma stock_step_update:
  "locations tx = locations s \<Longrightarrow> stock_step s tx \<Longrightarrow>
     stock_step s (tx\<lparr>stocks := map (\<lambda>r. if stock_id r = sid then r\<lparr>stock_quantity := q\<rparr> else r)
                                 (stocks tx)\<rparr>)"
  by (simp add: stock_step_def static_comp_update)

lemma stock_step_movements: "stock_step s tx \<Longrightarrow> stock_step s (tx\<lparr>stockMovements := ms\<rparr>)"
  by (simp add: stock_step_def)

lemma stock_step_adjustments: "stock_step s tx \<Longrightarrow> stock_step s (tx\<lparr>stockAdjustments := ms\<rparr>)"
  by (simp add: stock_step_def)

lemma recordMovement_step:
  "stock_step s (snd (recordMovement sid ty q reason s))
   \<and> products (snd (recordMovement sid ty q reason s)) = products s"
  by (auto simp: recordMovement_def transaction_def stock_update_def stockMovement_create_def
      Let_def stock_step_refl stock_step_update stock_step_movements
      split: option.splits prod.splits sum.splits if_splits)

lemma adjustStock_step:
  "stock_step s (snd (adjustStock sid ty q reason uid s))
   \<and> products (snd (adjustStock sid ty q reason uid s)) = products s"
  by (auto simp: adjustStock_def transaction_def stock_update_def stockAdjustment_create_def
      Let_def stock_step_refl stock_step_update stock_step_adjustments
      split: option.splits prod.splits sum.splits if_splits)


lemma pair_not_in_stocks:
  "find (\<lambda>r. stock_productId r = p \<and> stock_locationId r = l) ss = None
     \<Longrightarrow> (p, l) \<notin> (\<lambda>r. (stock_productId r, stock_locationId r)) ` set ss"
  by (auto simp: find_None_iff_set)

lemma createStock_step:
  "stock_step s (snd (createStock p w l q s))
   \<and> products (snd (createStock p w l q s)) = products s"
  by (auto simp: createStock_def stock_create_def Let_def stock_step_def stock_static_def
      pair_not_in_stocks split: option.splits)

lemma transferStock_step:
  "stock_step s (snd (transferStock sid tloc q reason s))
   \<and> products (snd (transferStock sid tloc q reason s)) = products s"
proof -
  let ?s' = "snd (transferStock sid tloc q reason s)"
  show ?thesis
  proof (cases "fst (transferStock sid tloc q reason s)")
    case (Inl e)
    then have "?s' = s" by (rule transferStock_rollback)
    then show ?thesis by (simp add: stock_step_refl)
  next
    case (Inr r)
    then show ?thesis
      by (auto simp: transferStock_def transaction_def stock_create_def stock_update_def
          stockMovement_create_def Let_def stock_step_def static_comp_update
          stock_static_def pair_not_in_stocks
          split: option.splits prod.splits sum.splits if_splits)
  qed
qed


lemma shift_stock_static:
  "map stock_static (shift_stock k items ss) = map stock_static ss"
  using shift_stock_places [of k items ss]
  by (simp add: stock_static_def [abs_def])

lemma createSalesOrder_step:
  "stock_step s (snd (createSalesOrder cid items s))
   \<and> products (snd (createSalesOrder cid items s)) = products s"
  by (auto simp: createSalesOrder_def transaction_def salesOrder_create_def Let_def
      stock_step_refl stock_step_same reduceStock_others reduceStock_stocks shift_stock_static
      split: prod.splits sum.splits if_splits)

lemma cancelSalesOrder_step:
  "stock_step s (snd (cancelSalesOrder oid s))
   \<and> products (snd (cancelSalesOrder oid s)) = products s"
  by (auto simp: cancelSalesOrder_def transaction_def salesOrder_update_status_def Let_def
      stock_step_refl stock_step_same restoreStock_others restoreStock_stocks shift_stock_static
      split: option.splits prod.splits sum.splits if_splits)

lemma receivePurchaseOrder_step:
  "stock_step s (snd (receivePurchaseOrder oid s))
   \<and> products (snd (receivePurchaseOrder oid s)) = products s"
  by (auto simp: receivePurchaseOrder_def transaction_def purchaseOrder_update_status_def Let_def
      stock_step_refl stock_step_same receiveItems_others receiveItems_stocks shift_stock_static
      split: option.splits prod.splits sum.splits if_splits)

lemma createProduct_cases:
  "snd (createProduct name sku barcode categoryId supplierId warehouseId unitPrice price s) = s
   \<or> (product_findFirst_sku_or_barcode sku barcode (products s) = None
      \<and> snd (createProduct name sku barcode categoryId supplierId warehouseId unitPrice price s)
          = snd (product_create name sku barcode categoryId supplierId warehouseId
                   unitPrice price s))"
  by (simp add: createProduct_def split: option.splits)

lemma product_create_step:
  "stock_step s (snd (product_create name sku barcode categoryId supplierId warehouseId
                        unitPrice price s))
   \<and> (product_codes_unique s \<longrightarrow>
        product_codes_unique (snd (product_create name sku barcode categoryId supplierId
                                     warehouseId unitPrice price s)))"
  by (auto simp: product_create_def Let_def stock_step_def product_codes_unique_def)

lemma createProduct_step:
  "stock_step s (snd (createProduct name sku barcode categoryId supplierId warehouseId
                        unitPrice price s))
   \<and> (product_codes_unique s \<longrightarrow>
        product_codes_unique (snd (createProduct name sku barcode categoryId supplierId
                                     warehouseId unitPrice price s)))"
  using createProduct_cases [of name sku barcode categoryId supplierId warehouseId
      unitPrice price s]
    product_create_step [of s name sku barcode categoryId supplierId warehouseId
      unitPrice price]
  by (auto simp: stock_step_refl)

lemma codes_comp_change:
  "prod_sku \<circ> (\<lambda>p. if prod_id p = pid then apply_changes data p else p) = prod_sku"
  "prod_barcode \<circ> (\<lambda>p. if prod_id p = pid then apply_changes data p else p) = prod_barcode"
  by (simp_all add: fun_eq_iff apply_changes_def)

lemma product_update_frame:
  "map prod_sku (products (snd (product_update pid data s))) = map prod_sku (products s)
   \<and> map prod_barcode (products (snd (product_update pid data s)))
       = map prod_barcode (products s)
   \<and> stocks (snd (product_update pid data s)) = stocks s
   \<and> locations (snd (product_update pid data s)) = locations s"
  by (simp add: product_update_def Let_def codes_comp_change)

lemma updateProduct_cases:
  "snd (updateProduct pid data s) = s
   \<or> snd (updateProduct pid data s) = snd (product_update pid data s)"
  by (simp add: updateProduct_def split: option.splits)

lemma updateProduct_step:
  "stock_step s (snd (updateProduct pid data s))
   \<and> (product_codes_unique s \<longrightarrow> product_codes_unique (snd (updateProduct pid data s)))"
  using updateProduct_cases [of pid data s] product_update_frame [of pid data s]
  by (auto simp: stock_step_same stock_step_refl product_codes_unique_def)

lemma deleteProduct_step:
  "stock_step s (snd (deleteProduct pid s))
   \<and> (product_codes_unique s \<longrightarrow> product_codes_unique (snd (deleteProduct pid s)))"
  by (auto simp: deleteProduct_def stock_step_def product_codes_unique_def distinct_map_filter
      split: option.splits)

lemma perform_step:
  "stock_step s (perform call s)
   \<and> (product_codes_unique s \<longrightarrow> product_codes_unique (perform call s))"
proof (cases call)
  case (CreateProduct name sku barcode categoryId supplierId warehouseId unitPrice price)
  then show ?thesis using createProduct_step by simp
next
  case (UpdateProduct pid data)
  then show ?thesis using updateProduct_step by simp
next
  case (DeleteProduct pid)
  then show ?thesis using deleteProduct_step by simp
next
  case (CreateStock p w l q)
  then show ?thesis using createStock_step [of s p w l q]
    by (simp add: product_codes_unique_def)
next
  case (RecordMovement sid ty q reason)
  then show ?thesis using recordMovement_step [of s sid ty q reason]
    by (simp add: product_codes_unique_def)
next
  case (AdjustStock sid ty q reason uid)
  then show ?thesis using adjustStock_step [of s sid ty q reason uid]
    by (simp add: product_codes_unique_def)
next
  case (TransferStock sid tloc q reason)
  then show ?thesis using transferStock_step [of s sid tloc q reason]
    by (simp add: product_codes_unique_def)
next
  case (CreateSalesOrder cid items)
  then show ?thesis using createSalesOrder_step [of s cid items]
    by (simp add: product_codes_unique_def)
next
  case (CancelSalesOrder oid)
  then show ?thesis using cancelSalesOrder_step [of s oid]
    by (simp add: product_codes_unique_def)
next
  case (ReceivePurchaseOrder oid)
  then show ?thesis using receivePurchaseOrder_step [of s oid]
    by (simp add: product_codes_unique_def)
qed

lemma fold_perform_invariants:
  "stock_pairs_unique s \<longrightarrow> stock_pairs_unique (fold perform calls s)"
  "product_codes_unique s \<longrightarrow> product_codes_unique (fold perform calls s)"
  "stock_in_location_warehouse s \<longrightarrow> stock_in_location_warehouse (fold perform calls s)"
proof (induction calls arbitrary: s)
  case Nil
  { case 1 show ?case by simp }
  { case 2 show ?case by simp }
  { case 3 show ?case by simp }
next
  case (Cons call calls)
  { case 1 show ?case
      using Cons.IH(1) [of "perform call s"] perform_step [of s call] stock_step_pairs_unique
      by auto }
  { case 2 show ?case
      using Cons.IH(2) [of "perform call s"] perform_step [of s call]
      by auto }
  { case 3 show ?case
      using Cons.IH(3) [of "perform call s"] perform_step [of s call] stock_step_consistent
      by auto }
qed


section \<open>Uniqueness\<close>

lemma createStock_existing_pair:
  assumes "find (\<lambda>x. loc_id x = l) (locations s) = Some loc" "loc_warehouseId loc = w"
    and "r \<in> set (stocks s)" "stock_productId r = p" "stock_locationId r = l"
  shows "createStock p w l q s
      = (Inl (AppError ''Stock already exists for this product in this location'' 400), s)"
proof -
  have "find (\<lambda>r. stock_productId r = p \<and> stock_locationId r = l) (stocks s) \<noteq> None"
    using assms(3-5) by (auto simp: find_None_iff_set)
  then show ?thesis
    using assms(1,2) by (auto simp: createStock_def)
qed

text \<open>
  Claim C8 as stated fails. The schema declares no unique index on \<open>Stock\<close>, and
  the insert itself accepts a second row for product 1 in location 1; it is
  \<open>createStock\<close>'s own lookup that rejects the request, with an \<open>AppError\<close>.
  Likewise \<open>createProduct\<close> answers a repeated sku with its own \<open>AppError\<close> before
  any insert is attempted.
\<close>

theorem uniqueness_checked_by_services:
  "(''Stock'', [''productId'', ''locationId'']) \<notin> set unique_indexes
   \<and> fst (stock_create 1 1 1 5 seeded)
       = Inr \<lparr>stock_id = 2, stock_productId = 1, stock_warehouseId = 1, stock_locationId = 1,
              stock_quantity = 5\<rparr>
   \<and> \<not> stock_pairs_unique (snd (stock_create 1 1 1 5 seeded))
   \<and> createStock 1 1 1 5 seeded
       = (Inl (AppError ''Stock already exists for this product in this location'' 400), seeded)
   \<and> createProduct ''Copy'' ''DELL-LAP-001'' ''999'' 1 1 1 1 2 seeded
       = (Inl (AppError ''Product with same SKU already exists'' 400), seeded)"
  by (simp add: unique_indexes_def stock_create_def createStock_def createProduct_def
      product_findFirst_sku_or_barcode_def stock_pairs_unique_def next_id_def seeded_def Let_def)

lemma product_create_duplicate:
  assumes "sku \<in> set (map prod_sku (products s)) \<or> barcode \<in> set (map prod_barcode (products s))"
  shows "product_create name sku barcode categoryId supplierId warehouseId unitPrice price s
      = (Inl (PrismaClientKnownRequestError ''P2002'' ''Unique constraint failed''), s)"
  using assms by (auto simp: product_create_def)

lemma createProduct_duplicate:
  assumes "p \<in> set (products s)" "prod_sku p = sku \<or> prod_barcode p = barcode"
  shows "\<exists>m. createProduct name sku barcode categoryId supplierId warehouseId unitPrice price s
      = (Inl (AppError m 400), s)"
proof (cases "\<exists>p' \<in> set (products s). prod_sku p' = sku")
  case True
  then obtain p' where "p' \<in> set (products s)" "prod_sku p' = sku" by blast
  from createProduct_same_sku [OF this] show ?thesis by blast
next
  case False
  then have no: "\<forall>p \<in> set (products s). prod_sku p \<noteq> sku" by blast
  with assms have "prod_barcode p = barcode" by blast
  from createProduct_same_barcode [OF no assms(1) this] show ?thesis by blast
qed

lemma stock_create_repeated_pair:
  assumes "r \<in> set (stocks s)" "stock_productId r = p" "stock_locationId r = l"
    and "p \<in> set (map prod_id (products s))" "w \<in> set (map wh_id (warehouses s))"
    and "l \<in> set (map loc_id (locations s))"
  shows "fst (stock_create p w l q s)
      = Inr \<lparr>stock_id = next_id (map stock_id (stocks s)), stock_productId = p,
             stock_warehouseId = w, stock_locationId = l, stock_quantity = q\<rparr>
    \<and> \<not> stock_pairs_unique (snd (stock_create p w l q s))"
  using assms by (auto simp: stock_create_def Let_def stock_pairs_unique_def)

lemma transferStock_new_row:
  assumes "fst (transferStock sid tloc q reason s) = Inr res"
    and "find (\<lambda>x. loc_id x = tloc) (locations s) = Some loc"
    and "find (\<lambda>r. stock_id r = sid) (stocks s) = Some src"
    and "find (\<lambda>r. stock_productId r = stock_productId src \<and> stock_locationId r = tloc)
           (stocks s) = None"
  shows "map stock_static (stocks (snd (transferStock sid tloc q reason s)))
      = map stock_static (stocks s) @ [(stock_productId src, tloc, loc_warehouseId loc)]"
  using assms
  by (auto simp: transferStock_def transaction_def stock_create_def stock_update_def
      stockMovement_create_def Let_def static_comp_update stock_static_def
      split: prod.splits sum.splits if_splits)

lemma transferStock_found_row:
  assumes "find (\<lambda>r. stock_id r = sid) (stocks s) = Some src"
    and "find (\<lambda>r. stock_productId r = stock_productId src \<and> stock_locationId r = tloc)
           (stocks s) = Some t"
  shows "map stock_static (stocks (snd (transferStock sid tloc q reason s)))
      = map stock_static (stocks s)"
proof (cases "fst (transferStock sid tloc q reason s)")
  case (Inl e)
  then show ?thesis by (simp add: transferStock_rollback)
next
  case (Inr res)
  then have "stocks (snd (transferStock sid tloc q reason s))
          = map (\<lambda>x. if stock_id x = stock_id t
                      then x\<lparr>stock_quantity := stock_quantity t + q\<rparr> else x)
              (map (\<lambda>x. if stock_id x = sid
                         then x\<lparr>stock_quantity := stock_quantity src - q\<rparr> else x) (stocks s))"
    using assms
    by (auto simp: transferStock_def transaction_def stock_update_def
        stockMovement_create_def Let_def
        split: option.splits prod.splits sum.splits if_splits)
  then show ?thesis by (simp only: map_static_update)
qed

text \<open>
  Claim C8, amended. Uniqueness of product sku and of product barcode is declared
  in the schema, where an insert that repeats a sku or a barcode is refused with
  the Prisma code P2002, and is additionally checked by \<open>createProduct\<close> before it
  inserts: a request that repeats a sku or a barcode is answered with the
  application's own 400 \<open>AppError\<close> and nothing is inserted. Uniqueness of the
  (productId, locationId) pair of a stock row is not declared in the schema, and
  the insert itself accepts a repeated pair; it is kept by the lookups of the
  services: \<open>createStock\<close> rejects a pair that is already there with a 400
  \<open>AppError\<close>, and \<open>transferStock\<close> adds no row when its lookup finds one for the
  pair and exactly one row for the pair when it finds none. For service calls that
  run one after another, none overlapping another, every sequence of calls of the
  services that write the \<open>Product\<close> or \<open>Stock\<close> table, started in a database with
  these uniqueness properties, ends in a database that has them. Nothing is said
  here of calls that overlap: the lookup and the insert of \<open>createStock\<close> are
  separate steps outside any transaction.
\<close>

theorem uniqueness_kept_by_services:
  "(''Product'', [''sku'']) \<in> set unique_indexes
   \<and> (''Product'', [''barcode'']) \<in> set unique_indexes
   \<and> (''Stock'', [''productId'', ''locationId'']) \<notin> set unique_indexes
   \<and> (sku \<in> set (map prod_sku (products s)) \<or> barcode \<in> set (map prod_barcode (products s))
       \<longrightarrow> product_create name sku barcode categoryId supplierId warehouseId unitPrice price s
           = (Inl (PrismaClientKnownRequestError ''P2002'' ''Unique constraint failed''), s))
   \<and> (existing \<in> set (products s)
       \<and> (prod_sku existing = sku \<or> prod_barcode existing = barcode)
       \<longrightarrow> (\<exists>m. createProduct name sku barcode categoryId supplierId warehouseId
                   unitPrice price s
                 = (Inl (AppError m 400), s)))
   \<and> (r \<in> set (stocks s) \<and> stock_productId r = p \<and> stock_locationId r = l
       \<and> p \<in> set (map prod_id (products s)) \<and> w \<in> set (map wh_id (warehouses s))
       \<and> l \<in> set (map loc_id (locations s))
       \<longrightarrow> fst (stock_create p w l q s)
             = Inr \<lparr>stock_id = next_id (map stock_id (stocks s)), stock_productId = p,
                    stock_warehouseId = w, stock_locationId = l, stock_quantity = q\<rparr>
           \<and> \<not> stock_pairs_unique (snd (stock_create p w l q s)))
   \<and> (find (\<lambda>x. loc_id x = l) (locations s) = Some loc \<and> loc_warehouseId loc = w
       \<and> r \<in> set (stocks s) \<and> stock_productId r = p \<and> stock_locationId r = l
       \<longrightarrow> createStock p w l q s
           = (Inl (AppError ''Stock already exists for this product in this location'' 400), s))
   \<and> (find (\<lambda>r. stock_id r = sid) (stocks s) = Some src
       \<and> find (\<lambda>r. stock_productId r = stock_productId src \<and> stock_locationId r = tloc)
            (stocks s) = Some found
       \<longrightarrow> map stock_static (stocks (snd (transferStock sid tloc n reason s)))
           = map stock_static (stocks s))
   \<and> (fst (transferStock sid tloc n reason s) = Inr res
       \<and> find (\<lambda>x. loc_id x = tloc) (locations s) = Some target
       \<and> find (\<lambda>r. stock_id r = sid) (stocks s) = Some src
       \<and> find (\<lambda>r. stock_productId r = stock_productId src \<and> stock_locationId r = tloc)
            (stocks s) = None
       \<longrightarrow> map stock_static (stocks (snd (transferStock sid tloc n reason s)))
           = map stock_static (stocks s) @ [(stock_productId src, tloc, loc_warehouseId target)])
   \<and> (stock_pairs_unique s \<and> product_codes_unique s
       \<longrightarrow> stock_pairs_unique (fold perform calls s)
           \<and> product_codes_unique (fold perform calls s))"
  apply (intro conjI impI)
  subgoal by (simp add: unique_indexes_def)
  subgoal by (simp add: unique_indexes_def)
  subgoal by (simp add: unique_indexes_def)
  subgoal by (rule product_create_duplicate)
  subgoal using createProduct_duplicate by blast
  subgoal using stock_create_repeated_pair by blast
  subgoal using stock_create_repeated_pair by blast
  subgoal using createStock_existing_pair by blast
  subgoal using transferStock_found_row by blast
  subgoal using transferStock_new_row by blast
  subgoal using fold_perform_invariants(1) by blast
  subgoal using fold_perform_invariants(2) by blast
  done

theorem uniqueness_kept_by_services_witness:
  "product_create ''Copy'' ''DELL-LAP-001'' ''999'' 1 1 1 1 2 seeded
     = (Inl (PrismaClientKnownRequestError ''P2002'' ''Unique constraint failed''), seeded)
   \<and> (\<exists>m. createProduct ''Copy'' ''DELL-LAP-001'' ''999'' 1 1 1 1 2 seeded
          = (Inl (AppError m 400), seeded))
   \<and> fst (stock_create 1 1 1 5 seeded)
       = Inr \<lparr>stock_id = 2, stock_productId = 1, stock_warehouseId = 1, stock_locationId = 1,
              stock_quantity = 5\<rparr>
   \<and> \<not> stock_pairs_unique (snd (stock_create 1 1 1 5 seeded))
   \<and> createStock 1 1 1 5 seeded
       = (Inl (AppError ''Stock already exists for this product in this location'' 400), seeded)
   \<and> map stock_static (stocks (snd (transferStock 1 1 20 ''move'' seeded))) = [(1, 1, 1)]
   \<and> map stock_static (stocks (snd (transferStock 1 2 20 ''move'' seeded)))
       = [(1, 1, 1), (1, 2, 1)]
   \<and> stock_pairs_unique seeded \<and> product_codes_unique seeded
   \<and> stock_pairs_unique
       (fold perform [CreateStock 1 1 1 5, TransferStock 1 2 20 ''move'',
                      CreateProduct ''Copy'' ''DELL-LAP-001'' ''999'' 1 1 1 1 2] seeded)
   \<and> product_codes_unique
       (fold perform [CreateStock 1 1 1 5, TransferStock 1 2 20 ''move'',
                      CreateProduct ''Copy'' ''DELL-LAP-001'' ''999'' 1 1 1 1 2] seeded)"
proof -
  let ?laptop = "\<lparr>prod_id = 1, prod_name = ''Dell Laptop XPS 13'', prod_sku = ''DELL-LAP-001'',
      prod_barcode = ''1234567890123'', prod_categoryId = 1, prod_supplierId = 1,
      prod_warehouseId = 1, prod_unitPrice = 800, prod_price = 1200\<rparr>"
  let ?row = "\<lparr>stock_id = 1, stock_productId = 1, stock_warehouseId = 1, stock_locationId = 1,
      stock_quantity = 50\<rparr>"
  let ?a1 = "\<lparr>loc_id = 1, loc_name = ''Section A1'', loc_warehouseId = 1\<rparr>"
  let ?a2 = "\<lparr>loc_id = 2, loc_name = ''Section A2'', loc_warehouseId = 1\<rparr>"
  let ?res = "(Some \<lparr>stock_id = 1, stock_productId = 1, stock_warehouseId = 1,
        stock_locationId = 1, stock_quantity = 30\<rparr>,
      Some \<lparr>stock_id = 2, stock_productId = 1, stock_warehouseId = 1,
        stock_locationId = 2, stock_quantity = 20\<rparr>)"
  let ?calls = "[CreateStock 1 1 1 5, TransferStock 1 2 20 ''move'',
      CreateProduct ''Copy'' ''DELL-LAP-001'' ''999'' 1 1 1 1 2]"
  have u: "stock_pairs_unique seeded" "product_codes_unique seeded"
    by (simp_all add: stock_pairs_unique_def product_codes_unique_def seeded_def)
  have sku: "''DELL-LAP-001'' \<in> set (map prod_sku (products seeded))
      \<or> ''999'' \<in> set (map prod_barcode (products seeded))"
    and laptop: "?laptop \<in> set (products seeded)"
      "prod_sku ?laptop = ''DELL-LAP-001'' \<or> prod_barcode ?laptop = ''999''"
    and row: "?row \<in> set (stocks seeded)" "stock_productId ?row = 1" "stock_locationId ?row = 1"
    and refs: "1 \<in> set (map prod_id (products seeded))" "1 \<in> set (map wh_id (warehouses seeded))"
      "1 \<in> set (map loc_id (locations seeded))"
    and a1: "find (\<lambda>x. loc_id x = 1) (locations seeded) = Some ?a1" "loc_warehouseId ?a1 = 1"
    and a2: "find (\<lambda>x. loc_id x = 2) (locations seeded) = Some ?a2"
    and src: "find (\<lambda>r. stock_id r = 1) (stocks seeded) = Some ?row"
    and here: "find (\<lambda>r. stock_productId r = stock_productId ?row \<and> stock_locationId r = 1)
        (stocks seeded) = Some ?row"
    and there: "find (\<lambda>r. stock_productId r = stock_productId ?row \<and> stock_locationId r = 2)
        (stocks seeded) = None"
    and old: "map stock_static (stocks seeded) = [(1, 1, 1)]"
    and nid: "next_id (map stock_id (stocks seeded)) = 2"
    by (simp_all add: seeded_def stock_static_def next_id_def)
  have ok: "fst (transferStock 1 2 20 ''move'' seeded) = Inr ?res"
    by (simp add: transferStock_def transaction_def stock_create_def stock_update_def
        stockMovement_create_def next_id_def seeded_def Let_def)
  have new: "[(1, 1, 1)] @ [(stock_productId ?row, 2, loc_warehouseId ?a2)]
      = [(1::int, 1::int, 1::int), (1, 2, 1)]"
    by simp
  note T = uniqueness_kept_by_services [where s = seeded and calls = ?calls
      and name = "''Copy''" and sku = "''DELL-LAP-001''" and barcode = "''999''"
      and categoryId = 1 and supplierId = 1 and warehouseId = 1 and unitPrice = 1 and price = 2
      and existing = ?laptop and r = ?row and p = 1 and l = 1 and w = 1 and q = 5
      and loc = ?a1 and sid = 1 and src = ?row and tloc = 1 and found = ?row
      and n = 20 and reason = "''move''"]
  note T' = uniqueness_kept_by_services [where s = seeded and sid = 1 and src = ?row
      and tloc = 2 and n = 20 and reason = "''move''" and res = ?res and target = ?a2]
  note T4 = T [THEN conjunct2, THEN conjunct2, THEN conjunct2, THEN conjunct1]
  note T5 = T [THEN conjunct2, THEN conjunct2, THEN conjunct2, THEN conjunct2, THEN conjunct1]
  note T6 = T [THEN conjunct2, THEN conjunct2, THEN conjunct2, THEN conjunct2, THEN conjunct2,
      THEN conjunct1]
  note T7 = T [THEN conjunct2, THEN conjunct2, THEN conjunct2, THEN conjunct2, THEN conjunct2,
      THEN conjunct2, THEN conjunct1]
  note T8 = T [THEN conjunct2, THEN conjunct2, THEN conjunct2, THEN conjunct2, THEN conjunct2,
      THEN conjunct2, THEN conjunct2, THEN conjunct1]
  note T9 = T' [THEN conjunct2, THEN conjunct2, THEN conjunct2, THEN conjunct2, THEN conjunct2,
      THEN conjunct2, THEN conjunct2, THEN conjunct2, THEN conjunct1]
  note T10 = T [THEN conjunct2, THEN conjunct2, THEN conjunct2, THEN conjunct2, THEN conjunct2,
      THEN conjunct2, THEN conjunct2, THEN conjunct2, THEN conjunct2]
  have c4: "product_create ''Copy'' ''DELL-LAP-001'' ''999'' 1 1 1 1 2 seeded
     = (Inl (PrismaClientKnownRequestError ''P2002'' ''Unique constraint failed''), seeded)"
    by (rule T4 [THEN mp]) (rule sku)
  have c5: "\<exists>m. createProduct ''Copy'' ''DELL-LAP-001'' ''999'' 1 1 1 1 2 seeded
          = (Inl (AppError m 400), seeded)"
    by (rule T5 [THEN mp]) (intro conjI, rule laptop(1), rule laptop(2))
  have c6: "fst (stock_create 1 1 1 5 seeded)
        = Inr \<lparr>stock_id = next_id (map stock_id (stocks seeded)), stock_productId = 1,
               stock_warehouseId = 1, stock_locationId = 1, stock_quantity = 5\<rparr>
      \<and> \<not> stock_pairs_unique (snd (stock_create 1 1 1 5 seeded))"
    by (rule T6 [THEN mp])
       (intro conjI, rule row(1), rule row(2), rule row(3), rule refs(1), rule refs(2),
        rule refs(3))
  have c7: "createStock 1 1 1 5 seeded
       = (Inl (AppError ''Stock already exists for this product in this location'' 400), seeded)"
    by (rule T7 [THEN mp])
       (intro conjI, rule a1(1), rule a1(2), rule row(1), rule row(2), rule row(3))
  have c8: "map stock_static (stocks (snd (transferStock 1 1 20 ''move'' seeded)))
      = map stock_static (stocks seeded)"
    by (rule T8 [THEN mp]) (intro conjI, rule src, rule here)
  have c9: "map stock_static (stocks (snd (transferStock 1 2 20 ''move'' seeded)))
      = map stock_static (stocks seeded) @ [(stock_productId ?row, 2, loc_warehouseId ?a2)]"
    by (rule T9 [THEN mp]) (intro conjI, rule ok, rule a2, rule src, rule there)
  have c10: "stock_pairs_unique (fold perform ?calls seeded)
      \<and> product_codes_unique (fold perform ?calls seeded)"
    by (rule T10 [THEN mp]) (intro conjI, rule u(1), rule u(2))
  show ?thesis
    using c4 c5 c6 [unfolded nid] c7 c8 [unfolded old] c9 [unfolded old new] c10 u
    by (intro conjI) (rule conjunct1, assumption | rule conjunct2, assumption | assumption)+
qed

section \<open>Stock rows and the warehouse of their location\<close>

lemma createStock_wrong_warehouse:
  assumes "find (\<lambda>x. loc_id x = l) (locations s) = None
      \<or> (\<exists>loc. find (\<lambda>x. loc_id x = l) (locations s) = Some loc \<and> loc_warehouseId loc \<noteq> w)"
  shows "createStock p w l q s = (Inl (AppError ''Invalid location for warehouse'' 400), s)"
  using assms by (auto simp: createStock_def)

text \<open>
  Claim C10. If every stock row's \<open>warehouseId\<close> is the \<open>warehouseId\<close> of the
  location it references, this is still so after any sequence of service calls.
  \<open>createStock\<close> rejects, with the 400 \<open>AppError\<close> `Invalid location for
  warehouse', every request whose location does not exist or belongs to another
  warehouse; and when \<open>transferStock\<close> succeeds and had to create the target row,
  the \<open>Stock\<close> table has gained exactly one row, for the source's product at the
  target location with the target location's \<open>warehouseId\<close>.
\<close>

theorem stock_warehouse_is_location_warehouse:
  "(stock_in_location_warehouse s \<longrightarrow> stock_in_location_warehouse (fold perform calls s))
   \<and> (find (\<lambda>x. loc_id x = l) (locations s) = None
        \<or> (\<exists>loc. find (\<lambda>x. loc_id x = l) (locations s) = Some loc \<and> loc_warehouseId loc \<noteq> w)
       \<longrightarrow> createStock p w l q s = (Inl (AppError ''Invalid location for warehouse'' 400), s))
   \<and> (fst (transferStock sid tloc n reason s) = Inr res
        \<and> find (\<lambda>x. loc_id x = tloc) (locations s) = Some target
        \<and> find (\<lambda>r. stock_id r = sid) (stocks s) = Some src
        \<and> find (\<lambda>r. stock_productId r = stock_productId src \<and> stock_locationId r = tloc)
             (stocks s) = None
       \<longrightarrow> map stock_static (stocks (snd (transferStock sid tloc n reason s)))
           = map stock_static (stocks s) @ [(stock_productId src, tloc, loc_warehouseId target)])"
  using fold_perform_invariants(3) [of s calls] createStock_wrong_warehouse [of l s w p q]
    transferStock_new_row [of sid tloc n reason s res target src]
  by blast


theorem stock_warehouse_is_location_warehouse_witness:
  "stock_in_location_warehouse seeded
   \<and> stock_in_location_warehouse
       (fold perform [CreateStock 2 1 2 5, TransferStock 1 2 20 ''move''] seeded)
   \<and> createStock 2 2 2 5 seeded = (Inl (AppError ''Invalid location for warehouse'' 400), seeded)
   \<and> map stock_static (stocks (snd (transferStock 1 2 20 ''move'' seeded)))
       = [(1, 1, 1), (1, 2, 1)]"
proof -
  let ?src = "\<lparr>stock_id = 1, stock_productId = 1, stock_warehouseId = 1, stock_locationId = 1,
      stock_quantity = 50\<rparr>"
  let ?target = "\<lparr>loc_id = 2, loc_name = ''Section A2'', loc_warehouseId = 1\<rparr>"
  let ?res = "(Some \<lparr>stock_id = 1, stock_productId = 1, stock_warehouseId = 1,
        stock_locationId = 1, stock_quantity = 30\<rparr>,
      Some \<lparr>stock_id = 2, stock_productId = 1, stock_warehouseId = 1,
        stock_locationId = 2, stock_quantity = 20\<rparr>)"
  have inv: "stock_in_location_warehouse seeded"
    by (simp add: stock_in_location_warehouse_def seeded_def)
  have loc: "find (\<lambda>x. loc_id x = 2) (locations seeded) = Some ?target"
    and src: "find (\<lambda>r. stock_id r = 1) (stocks seeded) = Some ?src"
    and none: "find (\<lambda>r. stock_productId r = stock_productId ?src \<and> stock_locationId r = 2)
        (stocks seeded) = None"
    and old: "map stock_static (stocks seeded) = [(1, 1, 1)]"
    by (simp_all add: seeded_def stock_static_def)
  have ok: "fst (transferStock 1 2 20 ''move'' seeded) = Inr ?res"
    by (simp add: transferStock_def transaction_def stock_create_def stock_update_def
        stockMovement_create_def next_id_def seeded_def Let_def)
  have wrong: "loc_warehouseId ?target \<noteq> 2" by simp
  have new: "[(1, 1, 1)] @ [(stock_productId ?src, 2, loc_warehouseId ?target)]
      = [(1::int, 1::int, 1::int), (1, 2, 1)]"
    by simp
  show ?thesis
    using inv loc src none ok wrong
      stock_warehouse_is_location_warehouse [where s = seeded
        and calls = "[CreateStock 2 1 2 5, TransferStock 1 2 20 ''move'']"
        and l = 2 and w = 2 and p = 2 and q = 5
        and sid = 1 and tloc = 2 and n = 20 and reason = "''move''" and res = ?res
        and target = ?target and src = ?src]
    unfolding old new [symmetric]
    by blast
qed

section \<open>Transfers between different locations\<close>

lemma map_update_absent:
  "sid \<notin> set (map stock_id ss) \<Longrightarrow>
     map (\<lambda>x. if stock_id x = sid then x\<lparr>stock_quantity := v\<rparr> else x) ss = ss"
  by (induction ss) auto

lemma sum_update_row:
  assumes "distinct (map stock_id ss)" "r \<in> set ss"
  shows "sum_list (map stock_quantity (filter (\<lambda>x. stock_productId x = p)
            (map (\<lambda>x. if stock_id x = stock_id r then x\<lparr>stock_quantity := v\<rparr> else x) ss)))
       = sum_list (map stock_quantity (filter (\<lambda>x. stock_productId x = p) ss))
         + (if stock_productId r = p then v - stock_quantity r else 0)"
  using assms
proof (induction ss)
  case Nil
  then show ?case by simp
next
  case (Cons x xs)
  show ?case
  proof (cases "x = r")
    case True
    then have "stock_id r \<notin> set (map stock_id xs)" using Cons.prems(1) by simp
    then have "map (\<lambda>x. if stock_id x = stock_id r then x\<lparr>stock_quantity := v\<rparr> else x) xs = xs"
      by (rule map_update_absent)
    then show ?thesis using True by simp
  next
    case False
    then have rin: "r \<in> set xs" using Cons.prems(2) by simp
    then have "stock_id x \<noteq> stock_id r" using Cons.prems(1) by auto
    then show ?thesis using Cons.IH [OF _ rin] Cons.prems(1) by simp
  qed
qed

lemma transferStock_success_stocks:
  assumes "fst (transferStock sid tloc q reason s) = Inr res"
    and "find (\<lambda>r. stock_id r = sid) (stocks s) = Some src"
  shows "\<exists>t base w.
      (base = stocks s
        \<or> base = stocks s @ [\<lparr>stock_id = next_id (map stock_id (stocks s)),
                               stock_productId = stock_productId src,
                               stock_warehouseId = w,
                               stock_locationId = tloc, stock_quantity = 0\<rparr>])
      \<and> t \<in> set base \<and> stock_productId t = stock_productId src \<and> stock_locationId t = tloc
      \<and> stocks (snd (transferStock sid tloc q reason s))
          = map (\<lambda>x. if stock_id x = stock_id t
                      then x\<lparr>stock_quantity := stock_quantity t + q\<rparr> else x)
              (map (\<lambda>x. if stock_id x = sid
                         then x\<lparr>stock_quantity := stock_quantity src - q\<rparr> else x) base)"
proof (cases "find (\<lambda>r. stock_productId r = stock_productId src \<and> stock_locationId r = tloc)
                (stocks s)")
  case None
  from assms None obtain loc where loc: "find (\<lambda>l. loc_id l = tloc) (locations s) = Some loc"
    by (cases "find (\<lambda>l. loc_id l = tloc) (locations s)")
       (auto simp: transferStock_def transaction_def split: if_splits)
  define row where "row = \<lparr>stock_id = next_id (map stock_id (stocks s)),
                               stock_productId = stock_productId src,
                               stock_warehouseId = loc_warehouseId loc,
                               stock_locationId = tloc, stock_quantity = 0\<rparr>"
  have "stocks (snd (transferStock sid tloc q reason s))
          = map (\<lambda>x. if stock_id x = stock_id row
                      then x\<lparr>stock_quantity := stock_quantity row + q\<rparr> else x)
              (map (\<lambda>x. if stock_id x = sid
                         then x\<lparr>stock_quantity := stock_quantity src - q\<rparr> else x)
                 (stocks s @ [row]))"
    using assms None loc
    by (auto simp: transferStock_def transaction_def stock_create_def stock_update_def
        stockMovement_create_def Let_def row_def
        split: if_splits)
  moreover have "row \<in> set (stocks s @ [row]) \<and> stock_productId row = stock_productId src
      \<and> stock_locationId row = tloc"
    by (simp add: row_def)
  ultimately show ?thesis
    unfolding row_def by blast
next
  case (Some t)
  then have "t \<in> set (stocks s) \<and> stock_productId t = stock_productId src
      \<and> stock_locationId t = tloc"
    using find_Some_mem [of _ "stocks s" t] by blast
  moreover have "stocks (snd (transferStock sid tloc q reason s))
          = map (\<lambda>x. if stock_id x = stock_id t
                      then x\<lparr>stock_quantity := stock_quantity t + q\<rparr> else x)
              (map (\<lambda>x. if stock_id x = sid
                         then x\<lparr>stock_quantity := stock_quantity src - q\<rparr> else x) (stocks s))"
    using assms Some
    by (auto simp: transferStock_def transaction_def stock_update_def
        stockMovement_create_def Let_def
        split: option.splits prod.splits sum.splits if_splits)
  ultimately show ?thesis by blast
qed


lemma next_id_new: "next_id ids \<notin> set ids"
  using next_id_above [of "next_id ids" ids] by auto

lemma ids_update:
  "map stock_id (map (\<lambda>x. if stock_id x = sid then x\<lparr>stock_quantity := v\<rparr> else x) ss)
     = map stock_id ss"
  by (induction ss) auto

lemma transferStock_conserves_other_location:
  assumes ok: "fst (transferStock sid tloc q reason s) = Inr res"
    and d: "distinct (map stock_id (stocks s))"
    and src: "find (\<lambda>r. stock_id r = sid) (stocks s) = Some src"
    and other: "stock_locationId src \<noteq> tloc"
  shows "totalQuantity (stock_productId src) (snd (transferStock sid tloc q reason s))
      = totalQuantity (stock_productId src) s"
proof -
  let ?p = "stock_productId src"
  let ?sum = "\<lambda>ss. sum_list (map stock_quantity (filter (\<lambda>x. stock_productId x = ?p) ss))"
  obtain t base w where
    base: "base = stocks s
        \<or> base = stocks s @ [\<lparr>stock_id = next_id (map stock_id (stocks s)),
                               stock_productId = ?p, stock_warehouseId = w,
                               stock_locationId = tloc, stock_quantity = 0\<rparr>]"
    and t: "t \<in> set base" "stock_productId t = ?p" "stock_locationId t = tloc"
    and st: "stocks (snd (transferStock sid tloc q reason s))
          = map (\<lambda>x. if stock_id x = stock_id t
                      then x\<lparr>stock_quantity := stock_quantity t + q\<rparr> else x)
              (map (\<lambda>x. if stock_id x = sid
                         then x\<lparr>stock_quantity := stock_quantity src - q\<rparr> else x) base)"
    using transferStock_success_stocks [OF ok src] by blast
  have src_in: "src \<in> set (stocks s)" and sid: "stock_id src = sid"
    using find_Some_mem [OF src] by simp_all
  have dbase: "distinct (map stock_id base)"
    using base d next_id_new [of "map stock_id (stocks s)"] by auto
  have src_base: "src \<in> set base" using base src_in by auto
  have sum_base: "?sum base = ?sum (stocks s)" using base by auto
  have "t \<noteq> src" using t(3) other by auto
  then have tid: "stock_id t \<noteq> sid"
    using distinct_ids_eq [OF dbase t(1) src_base] sid by auto
  define base1 where "base1 = map (\<lambda>x. if stock_id x = sid
                         then x\<lparr>stock_quantity := stock_quantity src - q\<rparr> else x) base"
  have s1: "?sum base1 = ?sum base + (stock_quantity src - q - stock_quantity src)"
    using sum_update_row [OF dbase src_base, of ?p "stock_quantity src - q"]
    by (simp add: base1_def sid)
  have d1: "distinct (map stock_id base1)"
    using dbase by (simp only: base1_def ids_update)
  have t1: "t \<in> set base1"
  proof -
    have "t = (\<lambda>x. if stock_id x = sid
              then x\<lparr>stock_quantity := stock_quantity src - q\<rparr> else x) t"
      using tid by simp
    then show ?thesis
      unfolding base1_def set_map using t(1) by (rule image_eqI)
  qed
  have s2: "?sum (map (\<lambda>x. if stock_id x = stock_id t
                      then x\<lparr>stock_quantity := stock_quantity t + q\<rparr> else x) base1)
      = ?sum base1 + (stock_quantity t + q - stock_quantity t)"
    using sum_update_row [OF d1 t1, of ?p "stock_quantity t + q"] t(2) by simp
  show ?thesis
    unfolding totalQuantity_def st base1_def [symmetric]
    using s1 s2 sum_base by simp
qed

text \<open>
  Claim C3, at an input where it fails. A transfer to another location conserves
  the product's total, as shown above. Transferring 20 laptops from the seeded row
  to its own location finds that same row as the target; the second update writes
  the quantity read before the first one plus 20, so the row and the product's
  total go from 50 to 70, with one OUT and one IN movement of 20 recorded.
\<close>

theorem transferStock_own_location_gains:
  "totalQuantity 1 seeded = 50
   \<and> fst (transferStock 1 1 20 ''restack'' seeded)
       = Inr (Some \<lparr>stock_id = 1, stock_productId = 1, stock_warehouseId = 1,
                    stock_locationId = 1, stock_quantity = 70\<rparr>,
              Some \<lparr>stock_id = 1, stock_productId = 1, stock_warehouseId = 1,
                    stock_locationId = 1, stock_quantity = 70\<rparr>)
   \<and> totalQuantity 1 (snd (transferStock 1 1 20 ''restack'' seeded)) = 70
   \<and> map mv_data (drop 1 (stockMovements (snd (transferStock 1 1 20 ''restack'' seeded))))
       = [(1, OUT, 20, ''Transfer out: restack''), (1, IN, 20, ''Transfer in: restack'')]"
  by (simp add: transferStock_def transaction_def stock_update_def stockMovement_create_def
      next_id_def totalQuantity_def mv_data_def seeded_def Let_def)

section \<open>Non-negative stock\<close>

lemma nonneg_update:
  "list_all (\<lambda>r. 0 \<le> stock_quantity r) ss \<Longrightarrow> 0 \<le> v \<Longrightarrow>
     list_all (\<lambda>r. 0 \<le> stock_quantity r)
       (map (\<lambda>r. if stock_id r = sid then r\<lparr>stock_quantity := v\<rparr> else r) ss)"
  by (induction ss) auto

lemma recordMovement_nonneg:
  assumes "stock_nonnegative s" "0 \<le> q"
  shows "stock_nonnegative (snd (recordMovement sid ty q reason s))"
proof (cases "fst (recordMovement sid ty q reason s)")
  case (Inl e)
  then show ?thesis using assms(1) by (simp add: recordMovement_rollback)
next
  case (Inr m)
  then obtain st where st: "find (\<lambda>r. stock_id r = sid) (stocks s) = Some st"
      and enough: "ty = OUT \<longrightarrow> \<not> stock_quantity st < q"
    by (cases "find (\<lambda>r. stock_id r = sid) (stocks s)")
       (auto simp: recordMovement_def transaction_def split: if_splits)
  have "st \<in> set (stocks s)" using find_Some_mem [OF st] by simp
  then have "0 \<le> stock_quantity st"
    using assms(1) by (simp add: stock_nonnegative_def list_all_iff)
  then have v: "0 \<le> (if ty = IN then stock_quantity st + q else stock_quantity st - q)"
    using assms(2) enough by (cases ty) auto
  have st': "stocks (snd (recordMovement sid ty q reason s))
      = map (\<lambda>r. if stock_id r = sid
                 then r\<lparr>stock_quantity :=
                        (if ty = IN then stock_quantity st + q else stock_quantity st - q)\<rparr>
                 else r) (stocks s)"
    using Inr st
    by (auto simp: recordMovement_def transaction_def stock_update_def stockMovement_create_def
        Let_def split: if_splits)
  show ?thesis
    unfolding stock_nonnegative_def st'
    by (rule nonneg_update [OF assms(1) [unfolded stock_nonnegative_def] v])
qed

lemma adjustStock_nonneg:
  assumes "stock_nonnegative s" "0 \<le> q"
  shows "stock_nonnegative (snd (adjustStock sid ty q reason uid s))"
proof (cases "fst (adjustStock sid ty q reason uid s)")
  case (Inl e)
  then show ?thesis using assms(1) by (simp add: adjustStock_rollback)
next
  case (Inr m)
  then obtain st where st: "find (\<lambda>r. stock_id r = sid) (stocks s) = Some st"
      and enough: "ty = REMOVE \<longrightarrow> \<not> stock_quantity st < q"
    by (cases "find (\<lambda>r. stock_id r = sid) (stocks s)")
       (auto simp: adjustStock_def transaction_def split: if_splits)
  have "st \<in> set (stocks s)" using find_Some_mem [OF st] by simp
  then have "0 \<le> stock_quantity st"
    using assms(1) by (simp add: stock_nonnegative_def list_all_iff)
  then have v: "0 \<le> (if ty = ADD then stock_quantity st + q else stock_quantity st - q)"
    using assms(2) enough by (cases ty) auto
  have st': "stocks (snd (adjustStock sid ty q reason uid s))
      = map (\<lambda>r. if stock_id r = sid
                 then r\<lparr>stock_quantity :=
                        (if ty = ADD then stock_quantity st + q else stock_quantity st - q)\<rparr>
                 else r) (stocks s)"
    using Inr st
    by (auto simp: adjustStock_def transaction_def stock_update_def stockAdjustment_create_def
        Let_def split: if_splits)
  show ?thesis
    unfolding stock_nonnegative_def st'
    by (rule nonneg_update [OF assms(1) [unfolded stock_nonnegative_def] v])
qed

lemma transferStock_nonneg:
  assumes "stock_nonnegative s" "0 \<le> q"
  shows "stock_nonnegative (snd (transferStock sid tloc q reason s))"
proof (cases "fst (transferStock sid tloc q reason s)")
  case (Inl e)
  then show ?thesis using assms(1) by (simp add: transferStock_rollback)
next
  case (Inr res)
  then obtain src where src: "find (\<lambda>r. stock_id r = sid) (stocks s) = Some src"
      and enough: "\<not> stock_quantity src < q"
    by (cases "find (\<lambda>r. stock_id r = sid) (stocks s)")
       (auto simp: transferStock_def transaction_def split: if_splits)
  obtain t base w where
    base: "base = stocks s
        \<or> base = stocks s @ [\<lparr>stock_id = next_id (map stock_id (stocks s)),
                               stock_productId = stock_productId src, stock_warehouseId = w,
                               stock_locationId = tloc, stock_quantity = 0\<rparr>]"
    and t: "t \<in> set base"
    and st: "stocks (snd (transferStock sid tloc q reason s))
          = map (\<lambda>x. if stock_id x = stock_id t
                      then x\<lparr>stock_quantity := stock_quantity t + q\<rparr> else x)
              (map (\<lambda>x. if stock_id x = sid
                         then x\<lparr>stock_quantity := stock_quantity src - q\<rparr> else x) base)"
    using transferStock_success_stocks [OF Inr src] by blast
  have nb: "list_all (\<lambda>r. 0 \<le> stock_quantity r) base"
    using base assms(1) by (auto simp: stock_nonnegative_def)
  then have "0 \<le> stock_quantity t" using t by (simp add: list_all_iff)
  then have vt: "0 \<le> stock_quantity t + q" using assms(2) by simp
  have vs: "0 \<le> stock_quantity src - q" using enough by simp
  show ?thesis
    unfolding stock_nonnegative_def st
    by (rule nonneg_update [OF nonneg_update [OF nb vs] vt])
qed

lemma shift_stock_up_nonneg:
  "list_all (\<lambda>r. 0 \<le> stock_quantity r) ss \<Longrightarrow> \<forall>i \<in> set items. 0 \<le> item_quantity i
     \<Longrightarrow> list_all (\<lambda>r. 0 \<le> stock_quantity r) (shift_stock 1 items ss)"
proof (induction items arbitrary: ss)
  case Nil
  then show ?case by simp
next
  case (Cons item items)
  show ?case
  proof (cases "find (\<lambda>r. stock_productId r = item_productId item) ss")
    case None
    then show ?thesis using Cons by simp
  next
    case (Some r)
    then have "r \<in> set ss" by (simp add: find_Some_mem)
    then have "0 \<le> stock_quantity r + 1 * item_quantity item"
      using Cons.prems by (simp add: list_all_iff)
    then have "list_all (\<lambda>r. 0 \<le> stock_quantity r)
        (map (\<lambda>x. if stock_id x = stock_id r
                   then x\<lparr>stock_quantity := stock_quantity r + 1 * item_quantity item\<rparr>
                   else x) ss)"
      using nonneg_update [OF Cons.prems(1)] by blast
    then show ?thesis
      using Cons.IH Cons.prems(2) Some by simp
  qed
qed


lemma cancelSalesOrder_nonneg:
  assumes "stock_nonnegative s"
    and "\<forall>ord \<in> set (salesOrders s). \<forall>i \<in> set (so_items ord). 0 \<le> item_quantity i"
  shows "stock_nonnegative (snd (cancelSalesOrder oid s))"
proof (cases "find (\<lambda>ord. so_id ord = oid) (salesOrders s)")
  case None
  then show ?thesis using assms(1) by (simp add: cancelSalesOrder_def transaction_def)
next
  case (Some ord)
  then have "ord \<in> set (salesOrders s)" by (simp add: find_Some_mem)
  then have "\<forall>i \<in> set (so_items ord). 0 \<le> item_quantity i" using assms(2) by blast
  then have "list_all (\<lambda>r. 0 \<le> stock_quantity r) (shift_stock 1 (so_items ord) (stocks s))"
    using shift_stock_up_nonneg assms(1) by (simp add: stock_nonnegative_def)
  then show ?thesis
    using Some assms(1)
    by (simp add: cancelSalesOrder_def transaction_def stock_nonnegative_def Let_def
        salesOrder_update_status_def restoreStock_stocks)
qed

lemma receivePurchaseOrder_nonneg:
  assumes "stock_nonnegative s"
    and "\<forall>ord \<in> set (purchaseOrders s). \<forall>i \<in> set (po_items ord). 0 \<le> item_quantity i"
  shows "stock_nonnegative (snd (receivePurchaseOrder oid s))"
proof (cases "find (\<lambda>ord. po_id ord = oid) (purchaseOrders s)")
  case None
  then show ?thesis using assms(1) by (simp add: receivePurchaseOrder_def transaction_def)
next
  case (Some ord)
  then have "ord \<in> set (purchaseOrders s)" by (simp add: find_Some_mem)
  then have "\<forall>i \<in> set (po_items ord). 0 \<le> item_quantity i" using assms(2) by blast
  then have "list_all (\<lambda>r. 0 \<le> stock_quantity r) (shift_stock 1 (po_items ord) (stocks s))"
    using shift_stock_up_nonneg assms(1) by (simp add: stock_nonnegative_def)
  then show ?thesis
    using Some assms(1)
    by (simp add: receivePurchaseOrder_def transaction_def stock_nonnegative_def Let_def
        purchaseOrder_update_status_def receiveItems_stocks)
qed

lemma at_most_one_item:
  assumes "distinct (map f xs)" "\<forall>i \<in> set (filter P xs). f i = c"
  shows "filter P xs = [] \<or> (\<exists>i. filter P xs = [i])"
proof -
  have d: "distinct (map f (filter P xs))" using assms(1) by (rule distinct_map_filter)
  show ?thesis
  proof (cases "filter P xs")
    case Nil
    then show ?thesis by simp
  next
    case (Cons a rest)
    show ?thesis
    proof (cases rest)
      case Nil
      with Cons show ?thesis by simp
    next
      case (Cons b rest')
      with \<open>filter P xs = a # rest\<close> have "f a = c" "f b = c" "f a \<noteq> f b"
        using assms(2) d by auto
      then show ?thesis by simp
    qed
  qed
qed

lemma createSalesOrder_available:
  assumes "createSalesOrder cid items s = (Inr order, s1)" "i \<in> set items"
  shows "stockCheck s i = Available"
proof -
  have "filter (\<lambda>check. check \<noteq> Available) (map (stockCheck s) items) = []"
    using assms(1) by (auto simp: createSalesOrder_def Let_def split: if_splits)
  then show ?thesis
    using assms(2) by (auto simp: filter_empty_conv)
qed

lemma createSalesOrder_nonneg_distinct:
  assumes ok: "createSalesOrder cid items s = (Inr order, s1)"
    and dp: "distinct (map item_productId items)"
    and d: "distinct (map stock_id (stocks s))"
    and nn: "stock_nonnegative s"
  shows "stock_nonnegative s1"
proof -
  let ?ss = "stocks s"
  have s1: "s1 = reduceStock (so_id order) items (s\<lparr>salesOrders := salesOrders s @ [order]\<rparr>)"
    using createSalesOrder_success [OF ok] by simp
  have st: "stocks s1 = map (\<lambda>x. x\<lparr>stock_quantity := stock_quantity x
                + (- 1) * quantity_for ?ss items (stock_id x)\<rparr>) ?ss"
    by (subst s1) (simp add: reduceStock_stocks shift_stock_closed [OF d])
  have bound: "quantity_for ?ss items (stock_id x) \<le> stock_quantity x" if x: "x \<in> set ?ss" for x
  proof -
    let ?F = "filter (\<lambda>i. first_stock_id ?ss (item_productId i) = Some (stock_id x)) items"
    have row: "find (\<lambda>r. stock_productId r = item_productId i) ?ss = Some x"
      if "first_stock_id ?ss (item_productId i) = Some (stock_id x)" for i
    proof -
      from that obtain r where r: "find (\<lambda>r. stock_productId r = item_productId i) ?ss = Some r"
          "stock_id r = stock_id x"
        by (auto simp: first_stock_id_def)
      then have "r \<in> set ?ss" by (simp add: find_Some_mem)
      then have "r = x" using distinct_ids_eq [OF d _ x] r(2) by simp
      with r(1) show ?thesis by simp
    qed
    have "\<forall>i \<in> set ?F. item_productId i = stock_productId x"
      using row find_Some_mem by fastforce
    then consider "?F = []" | i where "?F = [i]"
      using at_most_one_item [OF dp, of _ "stock_productId x"] by blast
    then show ?thesis
    proof cases
      case 1
      then have "quantity_for ?ss items (stock_id x) = 0" by (simp add: quantity_for_def)
      then show ?thesis using nn x by (simp add: stock_nonnegative_def list_all_iff)
    next
      case 2
      then have "i \<in> set ?F" by simp
      then have i: "i \<in> set items" "first_stock_id ?ss (item_productId i) = Some (stock_id x)"
        by simp_all
      have "stockCheck s i = Available" using createSalesOrder_available [OF ok i(1)] .
      then have "\<not> stock_quantity x < item_quantity i"
        using row [OF i(2)] by (auto simp: stockCheck_def split: if_splits)
      then show ?thesis using 2 by (simp add: quantity_for_def)
    qed
  qed
  show ?thesis
    unfolding stock_nonnegative_def st using bound by (simp add: list_all_iff)
qed

text \<open>
  Claim C1, at an input where it fails. The operations above keep all quantities
  non-negative, and so does \<open>createSalesOrder\<close> when no product occurs twice in
  the order. But the seeded laptop row holds 50, and a sales order with two items of
  30 laptops each passes the availability check, which looks at each item on its
  own; the two subtractions leave the row at -10.
\<close>

theorem createSalesOrder_repeated_product_negative:
  "map stock_quantity (stocks seeded) = [50]
   \<and> fst (createSalesOrder 7
            [\<lparr>item_productId = 1, item_quantity = 30, item_unitPrice = 1200\<rparr>,
             \<lparr>item_productId = 1, item_quantity = 30, item_unitPrice = 1200\<rparr>] seeded)
       = Inr \<lparr>so_id = 1, so_customerId = 7, so_status = ''open'',
              so_items = [\<lparr>item_productId = 1, item_quantity = 30, item_unitPrice = 1200\<rparr>,
                          \<lparr>item_productId = 1, item_quantity = 30, item_unitPrice = 1200\<rparr>]\<rparr>
   \<and> map stock_quantity (stocks (snd (createSalesOrder 7
            [\<lparr>item_productId = 1, item_quantity = 30, item_unitPrice = 1200\<rparr>,
             \<lparr>item_productId = 1, item_quantity = 30, item_unitPrice = 1200\<rparr>] seeded)))
       = [- 10]"
  by (simp add: createSalesOrder_def stockCheck_def salesOrder_create_def transaction_def
      stock_update_def stockMovement_create_def next_id_def seeded_def Let_def)

end
